theory Spec2Isabelle
  imports Complex_Main "HOL-Library.Word"
begin

section \<open>ColorChecker for ITU-R BT.2100: a shallow embedding of main.py\<close>

text \<open>
  The program reads the reference values of a 24-patch colour chart, converts them to
  linear RGB of a target colour space, scales them to a target brightness, applies an
  HDR transfer function, paints the result into one mosaic image and 24 single-patch
  images, and writes them as 16-bit files.

  Numbers. A Python \<open>int\<close> is an \<open>int\<close>. A Python \<open>float\<close> holds a finite binary64
  value, which is a rational number, so a float is modelled as a \<open>rat\<close>. Every float
  operation of the program itself (the layout arithmetic and the product in the
  quantisation) is the exact operation followed by rounding to the nearest binary64
  value, ties to even, as IEEE 754 prescribes; overflow to infinity and NaN are not
  modelled, since no value of the program comes near the largest binary64 value. The
  product of the linear RGB values with the target brightness is kept exact: it is
  handed to a transfer function of the external library, which is a parameter.
\<close>

type_synonym float = rat
type_synonym vec3 = "float \<times> float \<times> float"
type_synonym xy = "float \<times> float"
type_synonym mat3 = "vec3 \<times> vec3 \<times> vec3"

datatype py_error =
    TypeError string
  | IndexError
  | ValueError
  | Cv2Error

subsection \<open>Numeric primitives of Python and numpy\<close>

text \<open>\<open>int(x)\<close> on a float truncates towards zero.\<close>

definition py_int :: "float \<Rightarrow> int" where
  "py_int x = (if x < 0 then \<lceil>x\<rceil> else \<lfloor>x\<rfloor>)"

text \<open>
  \<open>np.round\<close> rounds to the nearest integer and, as numpy documents, a value exactly
  halfway between two integers goes to the even one. The result is an integral float,
  kept here as an \<open>int\<close>.
\<close>

definition np_round :: "float \<Rightarrow> int" where
  "np_round x =
     (let f = \<lfloor>x\<rfloor>; d = x - of_int f
      in if d < 1 / 2 then f
         else if 1 / 2 < d then f + 1
         else if even f then f else f + 1)"

subsection \<open>Binary64 arithmetic\<close>

text \<open>\<open>pow2 e\<close> is the power of two with an exponent that may be negative.\<close>

definition pow2 :: "int \<Rightarrow> float" where
  "pow2 e = power_int 2 e"

text \<open>
  The exponent of a non-zero rational \<open>x\<close>: the integer \<open>e\<close> with
  \<open>2 ^ e \<le> \<bar>x\<bar> < 2 ^ (e + 1)\<close>, found by halving above 1 and by doubling below 1.
\<close>

function log2_up :: "float \<Rightarrow> int" where
  "log2_up x = (if x < 2 then 0 else log2_up (x / 2) + 1)"
  by pat_completeness auto
termination
proof (relation "measure (\<lambda>x. nat \<lfloor>x\<rfloor>)")
  show "wf (measure (\<lambda>x :: rat. nat \<lfloor>x\<rfloor>))" by simp
next
  fix x :: rat
  assume "\<not> x < 2"
  then have "x / 2 \<le> x - 1" by simp
  then have "\<lfloor>x / 2\<rfloor> \<le> \<lfloor>x - 1\<rfloor>" by (rule floor_mono)
  moreover have "1 \<le> \<lfloor>x\<rfloor>" using \<open>\<not> x < 2\<close> by (simp add: le_floor_iff)
  ultimately show "(x / 2, x) \<in> measure (\<lambda>x. nat \<lfloor>x\<rfloor>)" by simp
qed

function log2_down :: "float \<Rightarrow> int" where
  "log2_down x = (if x \<le> 0 \<or> 1 \<le> x then 0 else log2_down (2 * x) - 1)"
  by pat_completeness auto
termination
proof (relation "measure (\<lambda>x. nat \<lceil>1 / x\<rceil>)")
  show "wf (measure (\<lambda>x :: rat. nat \<lceil>1 / x\<rceil>))" by simp
next
  fix x :: rat
  assume a: "\<not> (x \<le> 0 \<or> 1 \<le> x)"
  define y where "y = 1 / x"
  have y: "1 < y" using a by (simp add: y_def)
  have h: "1 / (2 * x) = y / 2" by (simp add: y_def)
  have c2: "2 \<le> \<lceil>y\<rceil>" using y by (simp add: less_ceiling_iff)
  have "y \<le> of_int \<lceil>y\<rceil>" by (rule le_of_int_ceiling)
  moreover have "(2 :: rat) \<le> of_int \<lceil>y\<rceil>" using c2 by (metis of_int_le_iff of_int_numeral)
  ultimately have "y / 2 \<le> of_int \<lceil>y\<rceil> - 1" by linarith
  then have "y / 2 \<le> of_int (\<lceil>y\<rceil> - 1)" by simp
  then have "\<lceil>y / 2\<rceil> \<le> \<lceil>y\<rceil> - 1" by (simp only: ceiling_le_iff)
  then have "nat \<lceil>y / 2\<rceil> < nat \<lceil>y\<rceil>" using c2 by simp
  then show "(2 * x, x) \<in> measure (\<lambda>x. nat \<lceil>1 / x\<rceil>)"
    unfolding in_measure h by (simp only: y_def)
qed

declare log2_up.simps [simp del] log2_down.simps [simp del]

definition float_exponent :: "float \<Rightarrow> int" where
  "float_exponent x = (if 1 \<le> \<bar>x\<bar> then log2_up \<bar>x\<bar> else log2_down \<bar>x\<bar>)"

text \<open>
  Rounding to binary64: a value with exponent \<open>e\<close> is rounded to the nearest multiple
  of \<open>2 ^ (e - 52)\<close>, ties to the even multiple; below the normal range the spacing is
  that of the subnormal values, \<open>2 ^ (- 1074)\<close>.
\<close>

definition fl64 :: "float \<Rightarrow> float" where
  "fl64 x =
     (if x = 0 then 0
      else let e = max (float_exponent x) (- 1022); u = pow2 (e - 52)
           in of_int (np_round (x / u)) * u)"

text \<open>
  The float operations of Python, and the conversion of an \<open>int\<close> to a float. Python
  raises on a division by zero; the program divides by the literals \<open>2.0\<close> and \<open>4.5\<close>
  only.
\<close>

definition fadd :: "float \<Rightarrow> float \<Rightarrow> float" where
  "fadd a b = fl64 (a + b)"

definition fsub :: "float \<Rightarrow> float \<Rightarrow> float" where
  "fsub a b = fl64 (a - b)"

definition fmul :: "float \<Rightarrow> float \<Rightarrow> float" where
  "fmul a b = fl64 (a * b)"

definition fdiv :: "float \<Rightarrow> float \<Rightarrow> float" where
  "fdiv a b = fl64 (a / b)"

definition float_of_int :: "int \<Rightarrow> float" where
  "float_of_int n = fl64 (of_int n)"

text \<open>
  Modelled from the spec: the conversion \<open>np.uint16\<close> of the numpy library, which is
  not part of the repository. An integral value inside \<open>0..65535\<close> is kept; the spec
  says that a value outside wraps according to the 16-bit width, which is reduction
  modulo \<open>2 ^ 16\<close>.
\<close>

definition np_uint16 :: "int \<Rightarrow> 16 word" where
  "np_uint16 k = word_of_int k"

subsection \<open>The external libraries\<close>

text \<open>
  The program calls the \<open>colour\<close> library for the chart data and for every colour
  transform. None of it is part of the repository, so the library is a parameter: a
  record of the entries the program uses. Each transform works on the rows of an
  \<open>N \<times> 3\<close> array one by one, so it is given as a function on one row.
  In a chart, each row of the data is \<open>(index, name, xyY)\<close>. The two transfer functions
  are given over a number type \<open>'a\<close>: the program runs them on floats, and the
  statement about the curves of ITU-R BT.2100 takes them over the real numbers.
\<close>

record RGB_Colourspace =
  cs_name :: string
  cs_whitepoint :: xy
  cs_XYZ_to_RGB_matrix :: mat3

type_synonym colour_checker = "string \<times> (int \<times> string \<times> vec3) list \<times> xy"

record 'a colour_lib =
  COLOURCHECKERS :: "string \<Rightarrow> colour_checker option"
  xyY_to_XYZ :: "vec3 \<Rightarrow> vec3"
  XYZ_to_RGB :: "vec3 \<Rightarrow> xy \<Rightarrow> xy \<Rightarrow> mat3 \<Rightarrow> string \<Rightarrow> vec3"
  eotf_reverse_BT2100_HLG :: "'a \<times> 'a \<times> 'a \<Rightarrow> 'a \<times> 'a \<times> 'a"
  oetf_ST2084 :: "'a \<times> 'a \<times> 'a \<Rightarrow> 'a \<times> 'a \<times> 'a"
  BT2020_COLOURSPACE :: RGB_Colourspace

subsection \<open>The module-level configuration\<close>

record config =
  TARGET_BRIGHTNESS :: int
  COLOR_CHECKER_NAME :: string
  CHROMATIC_ADAPTATION_TRANSFORM :: string
  COLOR_SPACE :: RGB_Colourspace
  OETF_TYPE :: string
  IMG_WIDTH :: int
  IMG_HEIGHT :: int
  COLOR_CHECKER_SIZE :: float
  COLOR_CHECKER_PADDING :: float
  COLOR_CHECKER_H_NUM :: int
  COLOR_CHECKER_V_NUM :: int
  IMG_MAX_LEVEL :: int

text \<open>
  The values the source assigns. A float literal is the binary64 value nearest to the
  decimal written: \<open>4.5\<close> is exact and \<open>0.01\<close> is not.
\<close>

definition default_config :: "'a colour_lib \<Rightarrow> config" where
  "default_config lib =
     \<lparr> TARGET_BRIGHTNESS = 100,
       COLOR_CHECKER_NAME = ''ColorChecker 2005'',
       CHROMATIC_ADAPTATION_TRANSFORM = ''CAT02'',
       COLOR_SPACE = BT2020_COLOURSPACE lib,
       OETF_TYPE = ''HLG'',
       IMG_WIDTH = 1920,
       IMG_HEIGHT = 1080,
       COLOR_CHECKER_SIZE = fdiv (float_of_int 1) (fl64 (45 / 10)),
       COLOR_CHECKER_PADDING = fl64 (1 / 100),
       COLOR_CHECKER_H_NUM = 6,
       COLOR_CHECKER_V_NUM = 4,
       IMG_MAX_LEVEL = 0xFFFF \<rparr>"

text \<open>
  The \<open>if\<close>/\<open>elif\<close>/\<open>else\<close> that binds \<open>OETF_FUNC\<close> when the module is loaded. A
  name that is neither of the two binds \<open>None\<close>; nothing is raised there.
\<close>

definition OETF_FUNC ::
    "'a colour_lib \<Rightarrow> config \<Rightarrow> ('a \<times> 'a \<times> 'a \<Rightarrow> 'a \<times> 'a \<times> 'a) option" where
  "OETF_FUNC lib cfg =
     (if OETF_TYPE cfg = ''HLG'' then Some (eotf_reverse_BT2100_HLG lib)
      else if OETF_TYPE cfg = ''ST2084'' then Some (oetf_ST2084 lib)
      else None)"

definition COLOR_CHECKER_EACH_NAME :: "string list" where
  "COLOR_CHECKER_EACH_NAME =
     [''dark skin'', ''light skin'', ''blue sky'', ''foliage'',
      ''blue flower'', ''bluish green'', ''orange'', ''purplish blue'',
      ''moderate red'', ''purple'', ''yellow green'', ''orange yellow'',
      ''blue'', ''green'', ''red'', ''yellow'',
      ''magenta'', ''cyan'', ''white 9.5'', ''neutral 8'',
      ''neutral 6.5'', ''neutral 5'', ''neutral 3.5'', ''black 2'']"

subsection \<open>Lists, ranges and indexing\<close>

text \<open>
  \<open>xs[i]\<close> raises an \<open>IndexError\<close> unless \<open>-len(xs) \<le> i < len(xs)\<close>; an index below
  zero is taken from the end of the list.
\<close>

definition py_index :: "'a list \<Rightarrow> int \<Rightarrow> py_error + 'a" where
  "py_index xs i =
     (if 0 \<le> i \<and> i < int (length xs) then Inr (xs ! nat i)
      else if i < 0 \<and> - int (length xs) \<le> i then Inr (xs ! nat (i + int (length xs)))
      else Inl IndexError)"

text \<open>\<open>range(n)\<close>, empty when \<open>n \<le> 0\<close>.\<close>

definition py_range :: "int \<Rightarrow> int list" where
  "py_range n = map int [0..<nat n]"

subsection \<open>From the chart to encoded RGB\<close>

text \<open>
  \<open>colour.COLOURCHECKERS.get(cc_name)\<close> is \<open>None\<close> for an unknown chart, and unpacking
  \<open>None\<close> into three names raises a \<open>TypeError\<close>.
\<close>

definition get_colorchecker_large_xyz_and_whitepoint ::
    "'a colour_lib \<Rightarrow> string \<Rightarrow> py_error + (vec3 list \<times> xy)" where
  "get_colorchecker_large_xyz_and_whitepoint lib cc_name =
     (case COLOURCHECKERS lib cc_name of
        None \<Rightarrow> Inl (TypeError ''cannot unpack non-iterable NoneType object'')
      | Some (name, data, whitepoint) \<Rightarrow>
          (let temp_xyY = map (\<lambda>(index, label, xyY). xyY) data;
               large_xyz = map (xyY_to_XYZ lib) temp_xyY
           in Inr (large_xyz, whitepoint)))"

definition get_linear_rgb_from_large_xyz ::
    "'a colour_lib \<Rightarrow> config \<Rightarrow> vec3 list \<Rightarrow> xy \<Rightarrow> RGB_Colourspace \<Rightarrow> vec3 list" where
  "get_linear_rgb_from_large_xyz lib cfg large_xyz whitepoint color_space =
     (let illuminant_XYZ = whitepoint;
          illuminant_RGB = cs_whitepoint color_space;
          chromatic_adaptation_transform = CHROMATIC_ADAPTATION_TRANSFORM cfg;
          large_xyz_to_rgb_matrix = cs_XYZ_to_RGB_matrix color_space
      in map (\<lambda>xyz. XYZ_to_RGB lib xyz illuminant_XYZ illuminant_RGB
                       large_xyz_to_rgb_matrix chromatic_adaptation_transform)
             large_xyz)"

text \<open>
  \<open>rgb * TARGET_BRIGHTNESS\<close> multiplies every element of the array; this product is
  kept exact.
\<close>

definition scale_rgb :: "int \<Rightarrow> 'a :: ring_1 \<times> 'a \<times> 'a \<Rightarrow> 'a \<times> 'a \<times> 'a" where
  "scale_rgb k v = (case v of (r, g, b) \<Rightarrow> (r * of_int k, g * of_int k, b * of_int k))"

text \<open>Calling \<open>oetf_func\<close> when it is \<open>None\<close> raises a \<open>TypeError\<close>.\<close>

definition get_rgb_with_prime ::
    "config \<Rightarrow> ('a :: ring_1 \<times> 'a \<times> 'a) list
       \<Rightarrow> ('a \<times> 'a \<times> 'a \<Rightarrow> 'a \<times> 'a \<times> 'a) option
       \<Rightarrow> py_error + ('a \<times> 'a \<times> 'a) list" where
  "get_rgb_with_prime cfg rgb oetf_func =
     (let rgb_bright = map (scale_rgb (TARGET_BRIGHTNESS cfg)) rgb
      in case oetf_func of
           None \<Rightarrow> Inl (TypeError ''NoneType object is not callable'')
         | Some f \<Rightarrow> Inr (map f rgb_bright))"

subsection \<open>Quantisation: \<open>_get_16bit_img\<close>\<close>

text \<open>
  \<open>np.uint16(np.round(img * IMG_MAX_LEVEL))\<close> works element by element; this is what
  it does to one element.
\<close>

definition get_16bit_value :: "config \<Rightarrow> float \<Rightarrow> 16 word" where
  "get_16bit_value cfg v = np_uint16 (np_round (fmul v (float_of_int (IMG_MAX_LEVEL cfg))))"

text \<open>
  An image is an array of \<open>rows \<times> cols\<close> pixels. It is kept as its shape and a function
  from row and column to the pixel; only positions inside the shape are meaningful.
\<close>

record 'a canvas =
  c_rows :: int
  c_cols :: int
  c_px :: "int \<Rightarrow> int \<Rightarrow> 'a"

type_synonym pixel16 = "16 word \<times> 16 word \<times> 16 word"

definition map_canvas :: "('a \<Rightarrow> 'b) \<Rightarrow> 'a canvas \<Rightarrow> 'b canvas" where
  "map_canvas f img =
     \<lparr> c_rows = c_rows img, c_cols = c_cols img, c_px = (\<lambda>y x. f (c_px img y x)) \<rparr>"

text \<open>\<open>img[:, :, ::-1]\<close> reverses the three channels of every pixel.\<close>

definition reverse_channels :: "vec3 canvas \<Rightarrow> vec3 canvas" where
  "reverse_channels img = map_canvas (\<lambda>(r, g, b). (b, g, r)) img"

definition get_16bit_img :: "config \<Rightarrow> vec3 canvas \<Rightarrow> pixel16 canvas" where
  "get_16bit_img cfg img =
     map_canvas (\<lambda>(c0, c1, c2).
        (get_16bit_value cfg c0, get_16bit_value cfg c1, get_16bit_value cfg c2)) img"

subsection \<open>Arrays: creation and slice assignment\<close>

text \<open>\<open>np.zeros\<close> and \<open>np.ones\<close> raise a \<open>ValueError\<close> on a negative dimension.\<close>

definition np_full :: "int \<Rightarrow> int \<Rightarrow> vec3 \<Rightarrow> py_error + vec3 canvas" where
  "np_full h w v =
     (if h < 0 \<or> w < 0 then Inl ValueError
      else Inr \<lparr> c_rows = h, c_cols = w, c_px = (\<lambda>y x. v) \<rparr>)"

definition np_zeros :: "int \<Rightarrow> int \<Rightarrow> py_error + vec3 canvas" where
  "np_zeros h w = np_full h w (0, 0, 0)"

definition np_ones :: "int \<Rightarrow> int \<Rightarrow> py_error + vec3 canvas" where
  "np_ones h w = np_full h w (1, 1, 1)"

text \<open>\<open>patch[:, :] = colour\<close> gives every pixel of the patch the colour.\<close>

definition fill_patch :: "vec3 canvas \<Rightarrow> vec3 \<Rightarrow> vec3 canvas" where
  "fill_patch patch colour = patch \<lparr> c_px := (\<lambda>y x. colour) \<rparr>"

text \<open>
  A bound of a slice \<open>a:b\<close> on an axis of length \<open>n\<close>: a negative bound counts from the
  end, and every bound is clipped to \<open>0..n\<close>.
\<close>

definition slice_bound :: "int \<Rightarrow> int \<Rightarrow> int" where
  "slice_bound n i = (if i < 0 then max (i + n) 0 else min i n)"

text \<open>
  \<open>img[v0:v1, h0:h1] = patch\<close>. The slice selects the rows \<open>r0..<r1\<close> and the columns
  \<open>k0..<k1\<close> that remain after clipping; numpy broadcasts the patch onto that region
  when each of its two dimensions is equal to the region's or is 1, and raises a
  \<open>ValueError\<close> otherwise.
\<close>

definition assign_slice ::
    "vec3 canvas \<Rightarrow> int \<Rightarrow> int \<Rightarrow> int \<Rightarrow> int \<Rightarrow> vec3 canvas \<Rightarrow> py_error + vec3 canvas" where
  "assign_slice img v0 v1 h0 h1 patch =
     (let r0 = slice_bound (c_rows img) v0; r1 = slice_bound (c_rows img) v1;
          k0 = slice_bound (c_cols img) h0; k1 = slice_bound (c_cols img) h1;
          rh = max 0 (r1 - r0); rw = max 0 (k1 - k0)
      in if (c_rows patch = rh \<or> c_rows patch = 1) \<and> (c_cols patch = rw \<or> c_cols patch = 1)
         then Inr (img \<lparr> c_px := (\<lambda>y x.
                  if r0 \<le> y \<and> y < r1 \<and> k0 \<le> x \<and> x < k1
                  then c_px patch (if c_rows patch = 1 then 0 else y - r0)
                                  (if c_cols patch = 1 then 0 else x - k0)
                  else c_px img y x) \<rparr>)
         else Inl ValueError)"

subsection \<open>Effects: preview and file output\<close>

text \<open>
  \<open>cv2.imshow\<close> and \<open>cv2.imwrite\<close> are the effects of the program. A run is described
  by the list of the effects it requested, in order, and by the error that ended it,
  if any. The preview waits for a key; the model takes the key as pressed. With
  \<open>over_disp\<close> set, \<open>cv2.resizeWindow\<close> is called without its size arguments, which
  OpenCV refuses with \<open>cv2.error\<close> after the image has been shown.
\<close>

datatype effect =
    Imshow "vec3 canvas"
  | Imwrite string "pixel16 canvas"

definition preview_image :: "vec3 canvas \<Rightarrow> string \<Rightarrow> bool \<Rightarrow> effect list \<times> py_error option" where
  "preview_image img order over_disp =
     (if order = ''rgb'' then
        ([Imshow (reverse_channels img)],
         if over_disp then Some Cv2Error else None)
      else if order = ''bgr'' then
        ([Imshow img], if over_disp then Some Cv2Error else None)
      else ([], Some ValueError))"

subsection \<open>File names\<close>

definition digit_char :: "nat \<Rightarrow> char" where
  "digit_char d = ''0123456789'' ! d"

fun dec_str :: "nat \<Rightarrow> string" where
  "dec_str n = (if n < 10 then [digit_char n] else dec_str (n div 10) @ [digit_char (n mod 10)])"

declare dec_str.simps [simp del]

text \<open>\<open>{:02d}\<close>: decimal, padded with zeros to two characters, the sign included.\<close>

definition fmt_02d :: "int \<Rightarrow> string" where
  "fmt_02d n =
     (if n < 0 then CHR ''-'' # dec_str (nat (- n))
      else if n < 10 then CHR ''0'' # dec_str (nat n)
      else dec_str (nat n))"

definition measure_file_str :: "string \<Rightarrow> string \<Rightarrow> int \<Rightarrow> string \<Rightarrow> string" where
  "measure_file_str cs oetf n name =
     ''./output/ColorChecker_Measure_Patch_'' @ cs @ ''_'' @ oetf @ ''_'' @ fmt_02d n
       @ ''_'' @ name @ ''.tiff''"

definition all_patch_file_str :: "string \<Rightarrow> string \<Rightarrow> string" where
  "all_patch_file_str cs oetf = ''./output/ColorChecker_All_'' @ cs @ ''_'' @ oetf @ ''_.tiff''"

subsection \<open>Layout: the parameters computed at the head of \<open>make_color_checker_image\<close>\<close>

text \<open>The grid of the two loops is written there as the literals 6 and 4.\<close>

definition h_num :: int where
  "h_num = 6"

definition v_num :: int where
  "v_num = 4"

definition patch_st_h :: "config \<Rightarrow> int" where
  "patch_st_h cfg =
     py_int (fsub (fdiv (float_of_int (IMG_WIDTH cfg)) 2)
               (fadd (fdiv (fmul (fmul (float_of_int (IMG_HEIGHT cfg)) (COLOR_CHECKER_SIZE cfg))
                                 (float_of_int (COLOR_CHECKER_H_NUM cfg))) 2)
                     (fdiv (fmul (fmul (float_of_int (IMG_HEIGHT cfg)) (COLOR_CHECKER_PADDING cfg))
                                 (fsub (fdiv (float_of_int (COLOR_CHECKER_H_NUM cfg)) 2) (1 / 2)))
                           2)))"

definition patch_st_v :: "config \<Rightarrow> int" where
  "patch_st_v cfg =
     py_int (fsub (fdiv (float_of_int (IMG_HEIGHT cfg)) 2)
               (fadd (fdiv (fmul (fmul (float_of_int (IMG_HEIGHT cfg)) (COLOR_CHECKER_SIZE cfg))
                                 (float_of_int (COLOR_CHECKER_V_NUM cfg))) 2)
                     (fdiv (fmul (fmul (float_of_int (IMG_HEIGHT cfg)) (COLOR_CHECKER_PADDING cfg))
                                 (fsub (fdiv (float_of_int (COLOR_CHECKER_V_NUM cfg)) 2) (1 / 2)))
                           2)))"

definition patch_width :: "config \<Rightarrow> int" where
  "patch_width cfg = py_int (fmul (float_of_int (IMG_HEIGHT cfg)) (COLOR_CHECKER_SIZE cfg))"

definition patch_height :: "config \<Rightarrow> int" where
  "patch_height cfg = patch_width cfg"

definition patch_space :: "config \<Rightarrow> int" where
  "patch_space cfg = py_int (fmul (float_of_int (IMG_HEIGHT cfg)) (COLOR_CHECKER_PADDING cfg))"

text \<open>The origin \<open>(st_h, st_v)\<close> of the rectangle that the first loop paints at \<open>idx\<close>.\<close>

definition mosaic_origin :: "config \<Rightarrow> int \<Rightarrow> int \<times> int" where
  "mosaic_origin cfg idx =
     (let v_idx = idx div h_num;
          h_idx = idx mod h_num;
          st_h = patch_st_h cfg + (patch_width cfg + patch_space cfg) * h_idx;
          st_v = patch_st_v cfg + (patch_height cfg + patch_space cfg) * v_idx
      in (st_h, st_v))"

text \<open>
  The parameters of the second loop; the source reuses the names \<open>patch_width\<close>,
  \<open>patch_height\<close>, \<open>st_h\<close> and \<open>st_v\<close> for them. The literal \<open>0.15\<close> is the binary64
  value nearest to \<open>15 / 100\<close>.
\<close>

definition each_patch_width :: "config \<Rightarrow> int" where
  "each_patch_width cfg = py_int (fmul (float_of_int (IMG_WIDTH cfg)) (fl64 (15 / 100)))"

definition each_patch_height :: "config \<Rightarrow> int" where
  "each_patch_height cfg = each_patch_width cfg"

definition each_st_h :: "config \<Rightarrow> int" where
  "each_st_h cfg = (IMG_WIDTH cfg div 2) - (each_patch_width cfg div 2)"

definition each_st_v :: "config \<Rightarrow> int" where
  "each_st_v cfg = (IMG_HEIGHT cfg div 2) - (each_patch_height cfg div 2)"

subsection \<open>The two loops of \<open>make_color_checker_image\<close>\<close>

text \<open>One pass of the first loop: it paints patch \<open>idx\<close> into the mosaic.\<close>

definition mosaic_body :: "config \<Rightarrow> vec3 list \<Rightarrow> int \<Rightarrow> vec3 canvas \<Rightarrow> py_error + vec3 canvas" where
  "mosaic_body cfg rgb idx img_all_patch =
     (case np_ones (patch_height cfg) (patch_width cfg) of
        Inl e \<Rightarrow> Inl e
      | Inr patch \<Rightarrow>
          (case py_index rgb idx of
             Inl e \<Rightarrow> Inl e
           | Inr colour \<Rightarrow>
               (case mosaic_origin cfg idx of
                  (st_h, st_v) \<Rightarrow>
                    assign_slice img_all_patch st_v (st_v + patch_height cfg)
                      st_h (st_h + patch_width cfg) (fill_patch patch colour))))"

fun mosaic_loop :: "config \<Rightarrow> vec3 list \<Rightarrow> int list \<Rightarrow> vec3 canvas \<Rightarrow> py_error + vec3 canvas" where
  "mosaic_loop cfg rgb [] img = Inr img"
| "mosaic_loop cfg rgb (idx # idxs) img =
     (case mosaic_body cfg rgb idx img of
        Inl e \<Rightarrow> Inl e
      | Inr img' \<Rightarrow> mosaic_loop cfg rgb idxs img')"

text \<open>
  The second loop. It keeps one canvas and one patch for all passes, and every pass
  ends with a file written from the canvas as it is then. The effects requested so
  far are threaded through, so that an error leaves the files already written.
\<close>

fun each_patch_loop ::
    "config \<Rightarrow> vec3 list \<Rightarrow> int list \<Rightarrow> vec3 canvas \<Rightarrow> vec3 canvas \<Rightarrow> effect list
       \<Rightarrow> effect list \<times> py_error option" where
  "each_patch_loop cfg rgb [] patch img es = (es, None)"
| "each_patch_loop cfg rgb (idx # idxs) patch img es =
     (case py_index rgb idx of
        Inl e \<Rightarrow> (es, Some e)
      | Inr colour \<Rightarrow>
          (case assign_slice img (each_st_v cfg) (each_st_v cfg + each_patch_height cfg)
                  (each_st_h cfg) (each_st_h cfg + each_patch_width cfg)
                  (fill_patch patch colour) of
             Inl e \<Rightarrow> (es, Some e)
           | Inr img' \<Rightarrow>
               (case py_index COLOR_CHECKER_EACH_NAME idx of
                  Inl e \<Rightarrow> (es, Some e)
                | Inr name \<Rightarrow>
                    each_patch_loop cfg rgb idxs (fill_patch patch colour) img'
                      (es @ [Imwrite
                               (measure_file_str (cs_name (COLOR_SPACE cfg)) (OETF_TYPE cfg)
                                  (idx + 1) name)
                               (get_16bit_img cfg (reverse_channels img'))]))))"

definition make_color_checker_image :: "config \<Rightarrow> vec3 list \<Rightarrow> effect list \<times> py_error option" where
  "make_color_checker_image cfg rgb =
     (case np_zeros (IMG_HEIGHT cfg) (IMG_WIDTH cfg) of
        Inl e \<Rightarrow> ([], Some e)
      | Inr img_all_patch \<Rightarrow>
     (case np_zeros (IMG_HEIGHT cfg) (IMG_WIDTH cfg) of
        Inl e \<Rightarrow> ([], Some e)
      | Inr img_each_patch \<Rightarrow>
     (case mosaic_loop cfg rgb (py_range (h_num * v_num)) img_all_patch of
        Inl e \<Rightarrow> ([], Some e)
      | Inr img_all_patch' \<Rightarrow>
     (case preview_image img_all_patch' ''rgb'' False of
        (es, Some e) \<Rightarrow> (es, Some e)
      | (es, None) \<Rightarrow>
          (let file_name = all_patch_file_str (cs_name (COLOR_SPACE cfg)) (OETF_TYPE cfg);
               es1 = es @ [Imwrite file_name
                             (get_16bit_img cfg (reverse_channels img_all_patch'))]
           in case np_ones (each_patch_height cfg) (each_patch_width cfg) of
                Inl e \<Rightarrow> (es1, Some e)
              | Inr patch \<Rightarrow>
                  each_patch_loop cfg rgb (py_range (h_num * v_num))
                    patch img_each_patch es1)))))"

subsection \<open>\<open>main_func\<close>\<close>

text \<open>
  The state of a run of \<open>main_func\<close>: its local variables, each \<open>None\<close> until the
  statement that binds it has finished, the effects requested and the error that
  ended the run, if any.
\<close>

record run =
  run_large_xyz :: "vec3 list option"
  run_illuminant :: "xy option"
  run_rgb :: "vec3 list option"
  run_rgb_prime :: "vec3 list option"
  run_effects :: "effect list"
  run_error :: "py_error option"

definition main_func :: "float colour_lib \<Rightarrow> config \<Rightarrow> run" where
  "main_func lib cfg =
     (case get_colorchecker_large_xyz_and_whitepoint lib (COLOR_CHECKER_NAME cfg) of
        Inl e \<Rightarrow>
          \<lparr> run_large_xyz = None, run_illuminant = None, run_rgb = None,
            run_rgb_prime = None, run_effects = [], run_error = Some e \<rparr>
      | Inr (large_xyz, illuminant) \<Rightarrow>
          (let rgb = get_linear_rgb_from_large_xyz lib cfg large_xyz illuminant (COLOR_SPACE cfg)
           in case get_rgb_with_prime cfg rgb (OETF_FUNC lib cfg) of
                Inl e \<Rightarrow>
                  \<lparr> run_large_xyz = Some large_xyz, run_illuminant = Some illuminant,
                    run_rgb = Some rgb, run_rgb_prime = None, run_effects = [],
                    run_error = Some e \<rparr>
              | Inr rgb_prime \<Rightarrow>
                  (case make_color_checker_image cfg rgb_prime of
                     (es, err) \<Rightarrow>
                       \<lparr> run_large_xyz = Some large_xyz, run_illuminant = Some illuminant,
                         run_rgb = Some rgb, run_rgb_prime = Some rgb_prime,
                         run_effects = es, run_error = err \<rparr>)))"

subsection \<open>Vocabulary for the statements\<close>

text \<open>
  The layout constants of the source: canvas 1920 by 1080, patch size \<open>1 / 4.5\<close> and
  padding \<open>0.01\<close> of the height, both as binary64 values, grid 6 by 4.
\<close>

definition reference_layout :: "config \<Rightarrow> bool" where
  "reference_layout cfg \<longleftrightarrow>
     IMG_WIDTH cfg = 1920 \<and> IMG_HEIGHT cfg = 1080 \<and>
     COLOR_CHECKER_SIZE cfg = fdiv (float_of_int 1) (fl64 (45 / 10)) \<and>
     COLOR_CHECKER_PADDING cfg = fl64 (1 / 100) \<and>
     COLOR_CHECKER_H_NUM cfg = 6 \<and> COLOR_CHECKER_V_NUM cfg = 4"

text \<open>The pixels of the slice that the first loop assigns at \<open>idx\<close>.\<close>

definition in_mosaic_rect :: "config \<Rightarrow> int \<Rightarrow> int \<Rightarrow> int \<Rightarrow> bool" where
  "in_mosaic_rect cfg idx y x =
     (case mosaic_origin cfg idx of
        (st_h, st_v) \<Rightarrow>
          st_v \<le> y \<and> y < st_v + patch_height cfg \<and> st_h \<le> x \<and> x < st_h + patch_width cfg)"

text \<open>The pixels of the slice that the second loop assigns, the same at every pass.\<close>

definition in_each_rect :: "config \<Rightarrow> int \<Rightarrow> int \<Rightarrow> bool" where
  "in_each_rect cfg y x \<longleftrightarrow>
     each_st_v cfg \<le> y \<and> y < each_st_v cfg + each_patch_height cfg \<and>
     each_st_h cfg \<le> x \<and> x < each_st_h cfg + each_patch_width cfg"

text \<open>
  The rectangles of the mosaic as \<open>(left, top, right, bottom)\<close>, the bounds of the
  slices of the first loop, and the smallest box around a list of rectangles.
\<close>

definition mosaic_rects :: "config \<Rightarrow> (int \<times> int \<times> int \<times> int) list" where
  "mosaic_rects cfg =
     map (\<lambda>idx. case mosaic_origin cfg idx of
                  (st_h, st_v) \<Rightarrow> (st_h, st_v, st_h + patch_width cfg, st_v + patch_height cfg))
         (py_range (h_num * v_num))"

fun bounding_box :: "(int \<times> int \<times> int \<times> int) list \<Rightarrow> (int \<times> int \<times> int \<times> int) option" where
  "bounding_box [] = None"
| "bounding_box ((l, t, r, b) # rs) =
     (case bounding_box rs of
        None \<Rightarrow> Some (l, t, r, b)
      | Some (l', t', r', b') \<Rightarrow> Some (min l l', min t t', max r r', max b b'))"

definition box_centre :: "int \<times> int \<times> int \<times> int \<Rightarrow> rat \<times> rat" where
  "box_centre box = (case box of (l, t, r, b) \<Rightarrow> (of_int (l + r) / 2, of_int (t + b) / 2))"

definition canvas_centre :: "config \<Rightarrow> rat \<times> rat" where
  "canvas_centre cfg = (of_int (IMG_WIDTH cfg) / 2, of_int (IMG_HEIGHT cfg) / 2)"

text \<open>
  A stand-in library for closed examples: a chart of 24 rows with made-up values, and
  simple rational functions in place of the library's transforms and transfer curves.
  It describes no real chart and no real curve; the theorems hold for every library.
\<close>

definition demo_data :: "(int \<times> string \<times> vec3) list" where
  "demo_data =
     map (\<lambda>i. (int i + 1, COLOR_CHECKER_EACH_NAME ! i,
                (of_nat (i + 1) / 50, 1 / 3, of_nat (i + 1) / 25))) [0..<24]"

definition demo_chart :: colour_checker where
  "demo_chart = (''ColorChecker 2005'', demo_data, (3457 / 10000, 3585 / 10000))"

definition demo_rgb :: "vec3 list" where
  "demo_rgb = map (\<lambda>i. (of_nat i / 24, 1 / 2, 1)) [0..<24]"

definition demo_lib :: "float colour_lib" where
  "demo_lib =
     \<lparr> COLOURCHECKERS = (\<lambda>name. if name = ''ColorChecker 2005'' then Some demo_chart else None),
       xyY_to_XYZ = (\<lambda>(x, y, Y). (x * Y / y, Y, (1 - x - y) * Y / y)),
       XYZ_to_RGB = (\<lambda>(X, Y, Z) w_in w_out m cat.
          case m of ((a, b, c), (d, e, f), (g, h, i)) \<Rightarrow>
            (a * X + b * Y + c * Z, d * X + e * Y + f * Z, g * X + h * Y + i * Z)),
       eotf_reverse_BT2100_HLG = (\<lambda>(r, g, b). (r / 1000, g / 1000, b / 1000)),
       oetf_ST2084 = (\<lambda>(r, g, b). (r / 10000, g / 10000, b / 10000)),
       BT2020_COLOURSPACE =
         \<lparr> cs_name = ''ITU-R BT.2020'',
           cs_whitepoint = (3127 / 10000, 3290 / 10000),
           cs_XYZ_to_RGB_matrix =
             ((17167 / 10000, - 3557 / 10000, - 2534 / 10000),
              (- 6667 / 10000, 16165 / 10000, 158 / 10000),
              (176 / 10000, - 428 / 10000, 9421 / 10000)) \<rparr> \<rparr>"

subsection \<open>The transfer functions of ITU-R BT.2100\<close>

text \<open>
  Modelled from the spec: the two encode operations that the spec names, the reverse
  HLG EOTF, which is the HLG OETF applied after the inverse of the display OOTF, and
  the PQ curve of SMPTE ST 2084. The program takes them from the \<open>colour\<close> library
  (\<open>colour.models.eotf_reverse_BT2100_HLG\<close> and \<open>colour.models.oetf_ST2084\<close>), which is
  not part of the repository. They are written here over the real numbers with the
  constants of the Recommendation and the defaults of the library: black level 0,
  nominal peak luminance 1000 cd/m2, hence system gamma 1.2, and a PQ peak of
  10000 cd/m2. \<open>ref_oetf_BT2100_HLG\<close> is the HLG OETF alone, without OOTF, in the
  library's normalisation (the square-root segment up to \<open>12 * E = 1\<close>).
\<close>

type_synonym real3 = "real \<times> real \<times> real"

definition ref_oetf_BT2100_HLG :: "real \<Rightarrow> real" where
  "ref_oetf_BT2100_HLG E =
     (if 12 * E \<le> 1 then sqrt (12 * E) / 2
      else 17883277 / 100000000 * ln (12 * E - 28466892 / 100000000) + 55991073 / 100000000)"

definition ref_ootf_reverse_BT2100_HLG :: "real3 \<Rightarrow> real3" where
  "ref_ootf_reverse_BT2100_HLG F_D =
     (case F_D of
        (R_D, G_D, B_D) \<Rightarrow>
          (let Y_D = 2627 / 10000 * R_D + 6780 / 10000 * G_D + 593 / 10000 * B_D;
               alpha = 1000 - 0;
               beta = 0;
               gamma = 12 / 10;
               k = \<bar>(Y_D - beta) / alpha\<bar> powr ((1 - gamma) / gamma)
           in if Y_D = beta then (0, 0, 0)
              else (k * (R_D - beta) / alpha, k * (G_D - beta) / alpha, k * (B_D - beta) / alpha)))"

definition ref_eotf_reverse_BT2100_HLG :: "real3 \<Rightarrow> real3" where
  "ref_eotf_reverse_BT2100_HLG F_D =
     (case ref_ootf_reverse_BT2100_HLG F_D of
        (R_S, G_S, B_S) \<Rightarrow>
          (ref_oetf_BT2100_HLG R_S, ref_oetf_BT2100_HLG G_S, ref_oetf_BT2100_HLG B_S))"

definition ref_oetf_ST2084_value :: "real \<Rightarrow> real" where
  "ref_oetf_ST2084_value L =
     (let m_1 = 2610 / 4096 * (1 / 4);
          m_2 = 2523 / 4096 * 128;
          c_1 = 3424 / 4096;
          c_2 = 2413 / 4096 * 32;
          c_3 = 2392 / 4096 * 32;
          Y_p = (L / 10000) powr m_1
      in ((c_1 + c_2 * Y_p) / (c_3 * Y_p + 1)) powr m_2)"

definition ref_oetf_ST2084 :: "real3 \<Rightarrow> real3" where
  "ref_oetf_ST2084 v =
     (case v of (r, g, b) \<Rightarrow>
        (ref_oetf_ST2084_value r, ref_oetf_ST2084_value g, ref_oetf_ST2084_value b))"

text \<open>
  A library whose two transfer functions are the curves above; the other entries are
  those of \<open>demo_lib\<close>.
\<close>

definition ref_lib :: "real colour_lib" where
  "ref_lib =
     \<lparr> COLOURCHECKERS = COLOURCHECKERS demo_lib,
       xyY_to_XYZ = xyY_to_XYZ demo_lib,
       XYZ_to_RGB = XYZ_to_RGB demo_lib,
       eotf_reverse_BT2100_HLG = ref_eotf_reverse_BT2100_HLG,
       oetf_ST2084 = ref_oetf_ST2084,
       BT2020_COLOURSPACE = BT2020_COLOURSPACE demo_lib \<rparr>"

section \<open>Auxiliary facts\<close>

lemma floor_rat_numeral_div:
  "\<lfloor>(numeral a :: rat) / numeral b\<rfloor> = numeral a div numeral b"
  using floor_divide_of_int_eq [of "numeral a" "numeral b", where ?'a = rat] by simp

lemma reference_layout_default [simp]:
  "reference_layout (default_config lib)"
  "reference_layout (default_config lib \<lparr> OETF_TYPE := t \<rparr>)"
  by (simp_all add: reference_layout_def default_config_def)

lemma floor_rat_neg_numeral_div:
  "\<lfloor>- ((numeral a :: rat) / numeral b)\<rfloor> = (- numeral a) div numeral b"
  using floor_divide_of_int_eq [of "- numeral a" "numeral b", where ?'a = rat] by simp

lemma floor_rat_minus_one: "\<lfloor>- 1 :: rat\<rfloor> = - 1"
  using floor_of_int [of "- 1", where ?'a = rat] by simp

lemma np_round_near: "\<bar>of_int (np_round x) - x\<bar> \<le> 1 / 2"
proof -
  define d where "d = x - of_int \<lfloor>x\<rfloor>"
  have d: "0 \<le> d" "d < 1" unfolding d_def by linarith+
  have x: "x = of_int \<lfloor>x\<rfloor> + d" by (simp add: d_def)
  have "np_round x = \<lfloor>x\<rfloor> \<and> d \<le> 1 / 2 \<or> np_round x = \<lfloor>x\<rfloor> + 1 \<and> 1 / 2 \<le> d"
    unfolding np_round_def Let_def d_def [symmetric] by auto
  then show ?thesis
  proof
    assume a: "np_round x = \<lfloor>x\<rfloor> \<and> d \<le> 1 / 2"
    then have "of_int (np_round x) - x = - d" using x by simp
    then show ?thesis using d a by simp
  next
    assume a: "np_round x = \<lfloor>x\<rfloor> + 1 \<and> 1 / 2 \<le> d"
    then have "of_int (np_round x) - x = 1 - d" using x by simp
    then show ?thesis using d a by simp
  qed
qed

lemma np_round_range:
  assumes "0 \<le> x" "x \<le> of_int n"
  shows "0 \<le> np_round x \<and> np_round x \<le> n"
proof -
  have f: "of_int \<lfloor>x\<rfloor> \<le> x" "x < of_int \<lfloor>x\<rfloor> + 1" by linarith+
  have lo: "0 \<le> \<lfloor>x\<rfloor>" using assms(1) by simp
  have hi: "\<lfloor>x\<rfloor> \<le> n" using assms(2) by (simp add: floor_le_iff) 
  have "\<lfloor>x\<rfloor> + 1 \<le> n" if "1 / 2 \<le> x - of_int \<lfloor>x\<rfloor>"
  proof -
    have "of_int \<lfloor>x\<rfloor> < (of_int n :: rat)" using that assms(2) by linarith
    then show ?thesis by simp
  qed
  then show ?thesis using lo hi by (auto simp: np_round_def Let_def)
qed

lemma pow2_pos [simp]: "0 < pow2 e"
  by (simp add: pow2_def)

lemma pow2_nonzero [simp]: "pow2 e \<noteq> 0"
  by (simp add: pow2_def)

lemma abs_pow2 [simp]: "\<bar>pow2 e\<bar> = pow2 e"
  using pow2_pos [of e] by (simp only: abs_of_pos)

lemma pow2_Suc: "pow2 (e + 1) = 2 * pow2 e"
  by (simp add: pow2_def power_int_add)

lemma pow2_pred: "pow2 (e - 1) = pow2 e / 2"
  using pow2_Suc [of "e - 1"] by simp

lemma pow2_add: "pow2 (a + b) = pow2 a * pow2 b"
  by (simp add: pow2_def power_int_add)

lemma pow2_nonneg: "0 \<le> e \<Longrightarrow> pow2 e = of_int (2 ^ nat e)"
  by (simp add: pow2_def power_int_def)

lemma pow2_mono: "a \<le> b \<Longrightarrow> pow2 a \<le> pow2 b"
  by (simp add: pow2_def power_int_increasing)

lemma pow2_less_imp: "pow2 a < pow2 b \<Longrightarrow> a < b"
  using pow2_mono [of b a] by (cases "a < b") auto

lemma log2_up_spec: "1 \<le> x \<Longrightarrow> pow2 (log2_up x) \<le> x \<and> x < pow2 (log2_up x + 1)"
proof (induction x rule: log2_up.induct)
  case (1 x)
  show ?case
  proof (cases "x < 2")
    case True
    then have "log2_up x = 0" by (simp add: log2_up.simps [of x])
    then show ?thesis using True "1.prems" by (simp add: pow2_def)
  next
    case False
    then have e: "log2_up x = log2_up (x / 2) + 1" by (simp add: log2_up.simps [of x])
    have "1 \<le> x / 2" using False by simp
    from "1.IH" [OF False this]
    have "pow2 (log2_up (x / 2)) \<le> x / 2" "x / 2 < pow2 (log2_up (x / 2) + 1)" by simp_all
    then show ?thesis
      unfolding e
      using pow2_Suc [of "log2_up (x / 2)"] pow2_Suc [of "log2_up (x / 2) + 1"] by linarith
  qed
qed

lemma log2_down_spec:
  "0 < x \<Longrightarrow> x < 1 \<Longrightarrow> pow2 (log2_down x) \<le> x \<and> x < pow2 (log2_down x + 1)"
proof (induction x rule: log2_down.induct)
  case (1 x)
  have n: "\<not> (x \<le> 0 \<or> 1 \<le> x)" using "1.prems" by simp
  then have e: "log2_down x = log2_down (2 * x) - 1" by (simp add: log2_down.simps [of x])
  show ?case
  proof (cases "2 * x < 1")
    case True
    have "0 < 2 * x" using "1.prems" by simp
    from "1.IH" [OF n this True]
    have "pow2 (log2_down (2 * x)) \<le> 2 * x" "2 * x < pow2 (log2_down (2 * x) + 1)" by simp_all
    then show ?thesis
      unfolding e
      using pow2_pred [of "log2_down (2 * x)"] pow2_Suc [of "log2_down (2 * x)"] by simp
  next
    case False
    then have "log2_down (2 * x) = 0" by (simp add: log2_down.simps [of "2 * x"])
    then have "log2_down x = - 1" using e by simp
    then show ?thesis using False "1.prems" by (simp add: pow2_def)
  qed
qed

lemma float_exponent_spec:
  "x \<noteq> 0 \<Longrightarrow> pow2 (float_exponent x) \<le> \<bar>x\<bar> \<and> \<bar>x\<bar> < pow2 (float_exponent x + 1)"
  using log2_up_spec [of "\<bar>x\<bar>"] log2_down_spec [of "\<bar>x\<bar>"]
  by (auto simp: float_exponent_def)

lemma float_exponent_less: "x \<noteq> 0 \<Longrightarrow> \<bar>x\<bar> < pow2 n \<Longrightarrow> float_exponent x < n"
  using float_exponent_spec [of x] by (intro pow2_less_imp) linarith


lemma np_round_of_int [simp]: "np_round (of_int n) = n"
  by (simp add: np_round_def)

lemma np_round_mono: "x \<le> y \<Longrightarrow> np_round x \<le> np_round y"
proof (cases "x = y")
  case True
  then show ?thesis by simp
next
  case False
  assume "x \<le> y"
  with False have l: "x < y" by simp
  have "of_int (np_round x) \<le> x + 1 / 2" "y - 1 / 2 \<le> of_int (np_round y)"
    using np_round_near [of x] np_round_near [of y] by linarith+
  with l have "(of_int (np_round x) :: rat) < of_int (np_round y) + 1" by linarith
  then have "(of_int (np_round x) :: rat) < of_int (np_round y + 1)" by simp
  then have "np_round x < np_round y + 1" by (simp only: of_int_less_iff)
  then show ?thesis by simp
qed

lemma fl64_zero [simp]: "fl64 0 = 0"
  by (simp add: fl64_def)

lemma fl64_unfold:
  "x \<noteq> 0 \<Longrightarrow>
     fl64 x = of_int (np_round (x / pow2 (max (float_exponent x) (- 1022) - 52)))
                * pow2 (max (float_exponent x) (- 1022) - 52)"
  by (simp add: fl64_def Let_def)

lemma fl64_le_grid:
  assumes "x \<le> of_int m * pow2 j" "\<bar>x\<bar> < pow2 (j + 53)" "- 1074 \<le> j"
  shows "fl64 x \<le> of_int m * pow2 j"
proof (cases "x = 0")
  case True
  then show ?thesis using assms(1) by simp
next
  case False
  define i where "i = max (float_exponent x) (- 1022) - 52"
  have "float_exponent x < j + 53" using False assms(2) by (rule float_exponent_less)
  then have ij: "i \<le> j" using assms(3) by (simp add: i_def)
  have g: "pow2 j = of_int (2 ^ nat (j - i)) * pow2 i"
    using pow2_add [of "j - i" i] pow2_nonneg [of "j - i"] ij by simp
  have "x / pow2 i \<le> of_int (m * 2 ^ nat (j - i))"
    using assms(1) by (simp add: g pos_divide_le_eq)
  then have "np_round (x / pow2 i) \<le> np_round (of_int (m * 2 ^ nat (j - i)))"
    by (rule np_round_mono)
  then have "np_round (x / pow2 i) \<le> m * 2 ^ nat (j - i)"
    by (simp only: np_round_of_int)
  then have "(of_int (np_round (x / pow2 i)) :: rat) \<le> of_int (m * 2 ^ nat (j - i))"
    by (simp only: of_int_le_iff)
  then have "of_int (np_round (x / pow2 i)) * pow2 i \<le> of_int (m * 2 ^ nat (j - i)) * pow2 i"
    by (simp add: mult_right_mono)
  then show ?thesis
    unfolding fl64_unfold [OF False] i_def [symmetric] by (simp add: g)
qed

lemma fl64_ge_grid:
  assumes "of_int m * pow2 j \<le> x" "\<bar>x\<bar> < pow2 (j + 53)" "- 1074 \<le> j"
  shows "of_int m * pow2 j \<le> fl64 x"
proof (cases "x = 0")
  case True
  then show ?thesis using assms(1) by simp
next
  case False
  define i where "i = max (float_exponent x) (- 1022) - 52"
  have "float_exponent x < j + 53" using False assms(2) by (rule float_exponent_less)
  then have ij: "i \<le> j" using assms(3) by (simp add: i_def)
  have g: "pow2 j = of_int (2 ^ nat (j - i)) * pow2 i"
    using pow2_add [of "j - i" i] pow2_nonneg [of "j - i"] ij by simp
  have "of_int (m * 2 ^ nat (j - i)) \<le> x / pow2 i"
    using assms(1) by (simp add: g pos_le_divide_eq)
  then have "np_round (of_int (m * 2 ^ nat (j - i))) \<le> np_round (x / pow2 i)"
    by (rule np_round_mono)
  then have "m * 2 ^ nat (j - i) \<le> np_round (x / pow2 i)"
    by (simp only: np_round_of_int)
  then have "(of_int (m * 2 ^ nat (j - i)) :: rat) \<le> of_int (np_round (x / pow2 i))"
    by (simp only: of_int_le_iff)
  then have "of_int (m * 2 ^ nat (j - i)) * pow2 i \<le> of_int (np_round (x / pow2 i)) * pow2 i"
    by (simp add: mult_right_mono)
  then show ?thesis
    unfolding fl64_unfold [OF False] i_def [symmetric] by (simp add: g)
qed

lemma fl64_error:
  assumes "\<bar>x\<bar> < pow2 n" "- 1022 < n"
  shows "\<bar>fl64 x - x\<bar> \<le> pow2 (n - 54)"
proof (cases "x = 0")
  case True
  then show ?thesis by (simp add: less_imp_le)
next
  case False
  define i where "i = max (float_exponent x) (- 1022) - 52"
  have "float_exponent x < n" using False assms(1) by (rule float_exponent_less)
  then have "i \<le> (n - 54) + 1" using assms(2) by (simp add: i_def)
  then have "pow2 i \<le> pow2 ((n - 54) + 1)" by (rule pow2_mono)
  then have u: "pow2 i / 2 \<le> pow2 (n - 54)" using pow2_Suc [of "n - 54"] by simp
  have "fl64 x - x = (of_int (np_round (x / pow2 i)) - x / pow2 i) * pow2 i"
    unfolding fl64_unfold [OF False] i_def [symmetric] by (simp add: field_simps)
  then have "\<bar>fl64 x - x\<bar> = \<bar>of_int (np_round (x / pow2 i)) - x / pow2 i\<bar> * pow2 i"
    by (simp add: abs_mult)
  also have "\<dots> \<le> (1 / 2) * pow2 i"
    by (intro mult_right_mono np_round_near) (simp add: less_imp_le)
  finally show ?thesis using u by simp
qed

lemma float_exponent_eq:
  assumes "pow2 e \<le> \<bar>x\<bar>" "\<bar>x\<bar> < pow2 (e + 1)"
  shows "float_exponent x = e"
proof -
  have "0 < pow2 e" by simp
  with assms(1) have "0 < \<bar>x\<bar>" by linarith
  then have nz: "x \<noteq> 0" by simp
  from float_exponent_spec [OF nz] assms
  have l: "pow2 (float_exponent x) < pow2 (e + 1)" "pow2 e < pow2 (float_exponent x + 1)"
    by linarith+
  have "float_exponent x < e + 1" "e < float_exponent x + 1"
    using pow2_less_imp [OF l(1)] pow2_less_imp [OF l(2)] by simp_all
  then show ?thesis by simp
qed

lemma fl64_eval:
  assumes "pow2 e \<le> \<bar>x\<bar>" "\<bar>x\<bar> < pow2 (e + 1)" "- 1022 \<le> e"
  shows "fl64 x = of_int (np_round (x / pow2 (e - 52))) * pow2 (e - 52)"
proof -
  have "0 < pow2 e" by simp
  with assms(1) have "0 < \<bar>x\<bar>" by linarith
  then have nz: "x \<noteq> 0" by simp
  show ?thesis
    using assms(3) by (simp add: fl64_unfold [OF nz] float_exponent_eq [OF assms(1,2)] max_def)
qed

lemma pow2_numeral: "pow2 (numeral n) = 2 ^ numeral n" "pow2 (- numeral n) = 1 / 2 ^ numeral n"
  "pow2 0 = 1" "pow2 1 = 2" "pow2 (- 1) = 1 / 2"
  by (simp_all add: pow2_def power_int_minus inverse_eq_divide)

lemmas fl64_simps = pow2_numeral np_round_def Let_def floor_rat_numeral_div
  floor_rat_neg_numeral_div floor_rat_minus_one

lemma binary64_steps:
  "float_of_int 1920 = 1920"
  "fdiv 1920 2 = 960"
  "float_of_int 1080 = 1080"
  "float_of_int 1 = 1"
  "fl64 (45 / 10) = 9 / 2"
  "fdiv 1 (9 / 2) = 2001599834386887 / 9007199254740992"
  "fmul 1080 (2001599834386887 / 9007199254740992) = 240"
  "float_of_int 6 = 6"
  "fmul 240 6 = 1440"
  "fdiv 1440 2 = 720"
  "fl64 (1 / 100) = 5764607523034235 / 576460752303423488"
  "fmul 1080 (5764607523034235 / 576460752303423488) = 3039929748475085 / 281474976710656"
  "fdiv 6 2 = 3"
  "fsub 3 (1 / 2) = 5 / 2"
  "fmul (3039929748475085 / 281474976710656) (5 / 2) = 27"
  "fdiv 27 2 = 27 / 2"
  "fadd 720 (27 / 2) = 1467 / 2"
  "fsub 960 (1467 / 2) = 453 / 2"
  "fdiv 1080 2 = 540"
  "float_of_int 4 = 4"
  "fmul 240 4 = 960"
  "fdiv 960 2 = 480"
  "fdiv 4 2 = 2"
  "fsub 2 (1 / 2) = 3 / 2"
  "fmul (3039929748475085 / 281474976710656) (3 / 2) = 1139973655678157 / 70368744177664"
  "fdiv (1139973655678157 / 70368744177664) 2 = 1139973655678157 / 140737488355328"
  "fadd 480 (1139973655678157 / 140737488355328) = 4293373004139725 / 8796093022208"
  "fsub 540 (4293373004139725 / 8796093022208) = 456517227852595 / 8796093022208"
  "fl64 (15 / 100) = 5404319552844595 / 36028797018963968"
  "fmul 1920 (5404319552844595 / 36028797018963968) = 288"
proof -
  show "float_of_int 1920 = 1920"
    unfolding float_of_int_def
      using fl64_eval [of "10" "1920"] by (simp add: fl64_simps)
  show "fdiv 1920 2 = 960"
    unfolding fdiv_def using fl64_eval [of "9" "1920 / 2"] by (simp add: fl64_simps)
  show "float_of_int 1080 = 1080"
    unfolding float_of_int_def
      using fl64_eval [of "10" "1080"] by (simp add: fl64_simps)
  show "float_of_int 1 = 1"
    unfolding float_of_int_def
      using fl64_eval [of "0" "1"] by (simp add: fl64_simps)
  show "fl64 (45 / 10) = 9 / 2"
    using fl64_eval [of "2" "45 / 10"] by (simp add: fl64_simps)
  show "fdiv 1 (9 / 2) = 2001599834386887 / 9007199254740992"
    unfolding fdiv_def
      using fl64_eval [of "- 3" "1 / (9 / 2)"] by (simp add: fl64_simps)
  show "fmul 1080 (2001599834386887 / 9007199254740992) = 240"
    unfolding fmul_def
      using fl64_eval [of "7" "1080 * (2001599834386887 / 9007199254740992)"] by (simp add: fl64_simps)
  show "float_of_int 6 = 6"
    unfolding float_of_int_def
      using fl64_eval [of "2" "6"] by (simp add: fl64_simps)
  show "fmul 240 6 = 1440"
    unfolding fmul_def using fl64_eval [of "10" "240 * 6"] by (simp add: fl64_simps)
  show "fdiv 1440 2 = 720"
    unfolding fdiv_def using fl64_eval [of "9" "1440 / 2"] by (simp add: fl64_simps)
  show "fl64 (1 / 100) = 5764607523034235 / 576460752303423488"
    using fl64_eval [of "- 7" "1 / 100"] by (simp add: fl64_simps)
  show "fmul 1080 (5764607523034235 / 576460752303423488) = 3039929748475085 / 281474976710656"
    unfolding fmul_def
      using fl64_eval [of "3" "1080 * (5764607523034235 / 576460752303423488)"] by (simp add: fl64_simps)
  show "fdiv 6 2 = 3"
    unfolding fdiv_def using fl64_eval [of "1" "6 / 2"] by (simp add: fl64_simps)
  show "fsub 3 (1 / 2) = 5 / 2"
    unfolding fsub_def
      using fl64_eval [of "1" "3 - (1 / 2)"] by (simp add: fl64_simps)
  show "fmul (3039929748475085 / 281474976710656) (5 / 2) = 27"
    unfolding fmul_def
      using fl64_eval [of "4" "(3039929748475085 / 281474976710656) * (5 / 2)"] by (simp add: fl64_simps)
  show "fdiv 27 2 = 27 / 2"
    unfolding fdiv_def using fl64_eval [of "3" "27 / 2"] by (simp add: fl64_simps)
  show "fadd 720 (27 / 2) = 1467 / 2"
    unfolding fadd_def
      using fl64_eval [of "9" "720 + (27 / 2)"] by (simp add: fl64_simps)
  show "fsub 960 (1467 / 2) = 453 / 2"
    unfolding fsub_def
      using fl64_eval [of "7" "960 - (1467 / 2)"] by (simp add: fl64_simps)
  show "fdiv 1080 2 = 540"
    unfolding fdiv_def using fl64_eval [of "9" "1080 / 2"] by (simp add: fl64_simps)
  show "float_of_int 4 = 4"
    unfolding float_of_int_def
      using fl64_eval [of "2" "4"] by (simp add: fl64_simps)
  show "fmul 240 4 = 960"
    unfolding fmul_def using fl64_eval [of "9" "240 * 4"] by (simp add: fl64_simps)
  show "fdiv 960 2 = 480"
    unfolding fdiv_def using fl64_eval [of "8" "960 / 2"] by (simp add: fl64_simps)
  show "fdiv 4 2 = 2"
    unfolding fdiv_def using fl64_eval [of "1" "4 / 2"] by (simp add: fl64_simps)
  show "fsub 2 (1 / 2) = 3 / 2"
    unfolding fsub_def
      using fl64_eval [of "0" "2 - (1 / 2)"] by (simp add: fl64_simps)
  show "fmul (3039929748475085 / 281474976710656) (3 / 2) = 1139973655678157 / 70368744177664"
    unfolding fmul_def
      using fl64_eval [of "4" "(3039929748475085 / 281474976710656) * (3 / 2)"] by (simp add: fl64_simps)
  show "fdiv (1139973655678157 / 70368744177664) 2 = 1139973655678157 / 140737488355328"
    unfolding fdiv_def
      using fl64_eval [of "3" "(1139973655678157 / 70368744177664) / 2"] by (simp add: fl64_simps)
  show "fadd 480 (1139973655678157 / 140737488355328) = 4293373004139725 / 8796093022208"
    unfolding fadd_def
      using fl64_eval [of "8" "480 + (1139973655678157 / 140737488355328)"] by (simp add: fl64_simps)
  show "fsub 540 (4293373004139725 / 8796093022208) = 456517227852595 / 8796093022208"
    unfolding fsub_def
      using fl64_eval [of "5" "540 - (4293373004139725 / 8796093022208)"] by (simp add: fl64_simps)
  show "fl64 (15 / 100) = 5404319552844595 / 36028797018963968"
    using fl64_eval [of "- 3" "15 / 100"] by (simp add: fl64_simps)
  show "fmul 1920 (5404319552844595 / 36028797018963968) = 288"
    unfolding fmul_def
      using fl64_eval [of "8" "1920 * (5404319552844595 / 36028797018963968)"] by (simp add: fl64_simps)
qed

lemma layout_values:
  "py_int (fsub (fdiv (float_of_int 1920) 2)
             (fadd (fdiv (fmul (fmul (float_of_int 1080) (fdiv (float_of_int 1) (fl64 (45 / 10))))
                               (float_of_int 6)) 2)
                   (fdiv (fmul (fmul (float_of_int 1080) (fl64 (1 / 100)))
                               (fsub (fdiv (float_of_int 6) 2) (1 / 2))) 2))) = 226"
  "py_int (fsub (fdiv (float_of_int 1080) 2)
             (fadd (fdiv (fmul (fmul (float_of_int 1080) (fdiv (float_of_int 1) (fl64 (45 / 10))))
                               (float_of_int 4)) 2)
                   (fdiv (fmul (fmul (float_of_int 1080) (fl64 (1 / 100)))
                               (fsub (fdiv (float_of_int 4) 2) (1 / 2))) 2))) = 51"
  "py_int (fmul (float_of_int 1080) (fdiv (float_of_int 1) (fl64 (45 / 10)))) = 240"
  "py_int (fmul (float_of_int 1080) (fl64 (1 / 100))) = 10"
  "py_int (fmul (float_of_int 1920) (fl64 (15 / 100))) = 288"
  by (simp_all only: binary64_steps) (simp_all add: py_int_def floor_rat_numeral_div)

lemma layout_ref:
  assumes "reference_layout cfg"
  shows "patch_st_h cfg = 226" "patch_st_v cfg = 51"
    "patch_width cfg = 240" "patch_height cfg = 240" "patch_space cfg = 10"
    "each_patch_width cfg = 288" "each_patch_height cfg = 288"
    "each_st_h cfg = 816" "each_st_v cfg = 396"
    "IMG_WIDTH cfg = 1920" "IMG_HEIGHT cfg = 1080"
proof -
  have e: "IMG_WIDTH cfg = 1920" "IMG_HEIGHT cfg = 1080"
    "COLOR_CHECKER_SIZE cfg = fdiv (float_of_int 1) (fl64 (45 / 10))"
    "COLOR_CHECKER_PADDING cfg = fl64 (1 / 100)"
    "COLOR_CHECKER_H_NUM cfg = 6" "COLOR_CHECKER_V_NUM cfg = 4"
    using assms by (simp_all only: reference_layout_def)
  show w: "patch_st_h cfg = 226" "patch_st_v cfg = 51" "patch_width cfg = 240"
    "patch_space cfg = 10" "each_patch_width cfg = 288"
    unfolding patch_st_h_def patch_st_v_def patch_width_def patch_space_def
      each_patch_width_def e
    by (rule layout_values)+
  show "patch_height cfg = 240" "each_patch_height cfg = 288"
    "each_st_h cfg = 816" "each_st_v cfg = 396"
    "IMG_WIDTH cfg = 1920" "IMG_HEIGHT cfg = 1080"
    by (simp_all add: patch_height_def each_patch_height_def each_st_h_def each_st_v_def w e)
qed

lemma mosaic_origin_ref:
  "reference_layout cfg \<Longrightarrow>
     mosaic_origin cfg idx = (226 + 250 * (idx mod 6), 51 + 250 * (idx div 6))"
  by (simp add: mosaic_origin_def Let_def layout_ref h_num_def)

lemma in_mosaic_rect_ref:
  "reference_layout cfg \<Longrightarrow>
     in_mosaic_rect cfg idx y x \<longleftrightarrow>
       51 + 250 * (idx div 6) \<le> y \<and> y < 291 + 250 * (idx div 6) \<and>
       226 + 250 * (idx mod 6) \<le> x \<and> x < 466 + 250 * (idx mod 6)"
  by (simp add: in_mosaic_rect_def mosaic_origin_ref layout_ref)

lemma in_each_rect_ref:
  "reference_layout cfg \<Longrightarrow>
     in_each_rect cfg y x \<longleftrightarrow> 396 \<le> y \<and> y < 684 \<and> 816 \<le> x \<and> x < 1104"
  by (simp add: in_each_rect_def layout_ref)

lemma mosaic_rects_disjoint:
  assumes "reference_layout cfg" "0 \<le> i" "i < 24" "0 \<le> j" "j < 24"
    and "in_mosaic_rect cfg i y x" "in_mosaic_rect cfg j y x"
  shows "i = j"
proof -
  have "i div 6 = j div 6" "i mod 6 = j mod 6"
    using assms by (auto simp: in_mosaic_rect_ref)
  then show ?thesis by (metis mult_div_mod_eq)
qed

lemma assign_slice_inside:
  assumes "0 \<le> v0" "v0 \<le> v1" "v1 \<le> c_rows img" "0 \<le> h0" "h0 \<le> h1" "h1 \<le> c_cols img"
    and "c_rows patch = v1 - v0" "c_cols patch = h1 - h0"
  shows "assign_slice img v0 v1 h0 h1 (fill_patch patch colour) =
           Inr (img \<lparr> c_px := (\<lambda>y x. if v0 \<le> y \<and> y < v1 \<and> h0 \<le> x \<and> x < h1 then colour
                                    else c_px img y x) \<rparr>)"
  using assms by (simp add: assign_slice_def slice_bound_def fill_patch_def Let_def cong: if_cong)

lemma mosaic_body_ref:
  assumes "reference_layout cfg" "0 \<le> idx" "idx < 24" "idx < int (length rgb)"
    and "c_rows img = 1080" "c_cols img = 1920"
  shows "mosaic_body cfg rgb idx img =
           Inr (img \<lparr> c_px := (\<lambda>y x. if in_mosaic_rect cfg idx y x then rgb ! nat idx
                                    else c_px img y x) \<rparr>)"
proof -
  have d: "0 \<le> idx div 6" "idx div 6 \<le> 3" "0 \<le> idx mod 6" "idx mod 6 \<le> 5"
    using assms(2,3) by auto
  define st_h where "st_h = 226 + 250 * (idx mod 6)"
  define st_v where "st_v = 51 + 250 * (idx div 6)"
  define patch :: "vec3 canvas" where
    "patch = \<lparr> c_rows = 240, c_cols = 240, c_px = (\<lambda>y x. (1, 1, 1)) \<rparr>"
  have b: "0 \<le> st_v" "st_v \<le> st_v + 240" "st_v + 240 \<le> c_rows img"
    "0 \<le> st_h" "st_h \<le> st_h + 240" "st_h + 240 \<le> c_cols img"
    "c_rows patch = st_v + 240 - st_v" "c_cols patch = st_h + 240 - st_h"
    using d assms(5,6) by (simp_all add: st_h_def st_v_def patch_def)
  have "mosaic_body cfg rgb idx img =
          assign_slice img st_v (st_v + 240) st_h (st_h + 240) (fill_patch patch (rgb ! nat idx))"
    using assms(1-4)
    by (simp add: mosaic_body_def np_ones_def np_full_def py_index_def layout_ref
        mosaic_origin_ref Let_def st_h_def st_v_def patch_def)
  also have "\<dots> = Inr (img \<lparr> c_px := (\<lambda>y x. if st_v \<le> y \<and> y < st_v + 240 \<and> st_h \<le> x \<and> x < st_h + 240
                                    then rgb ! nat idx else c_px img y x) \<rparr>)"
    by (rule assign_slice_inside [OF b])
  also have "\<dots> = Inr (img \<lparr> c_px := (\<lambda>y x. if in_mosaic_rect cfg idx y x then rgb ! nat idx
                                    else c_px img y x) \<rparr>)"
    using assms(1) by (simp add: in_mosaic_rect_ref st_h_def st_v_def add.commute)
  finally show ?thesis .
qed

lemma mosaic_loop_ref:
  assumes "reference_layout cfg"
    and "\<forall>idx \<in> set idxs. 0 \<le> idx \<and> idx < 24 \<and> idx < int (length rgb)"
    and "c_rows img = 1080" "c_cols img = 1920"
  shows "\<exists>img'. mosaic_loop cfg rgb idxs img = Inr img' \<and>
           c_rows img' = 1080 \<and> c_cols img' = 1920 \<and>
           (\<forall>y x. (\<forall>i \<in> set idxs. \<not> in_mosaic_rect cfg i y x) \<longrightarrow> c_px img' y x = c_px img y x) \<and>
           (\<forall>j y x. j \<in> set idxs \<and> in_mosaic_rect cfg j y x \<longrightarrow> c_px img' y x = rgb ! nat j)"
  using assms(2-)
proof (induction idxs arbitrary: img)
  case Nil
  then show ?case by simp
next
  case (Cons idx idxs)
  define img1 where
    "img1 = img \<lparr> c_px := (\<lambda>y x. if in_mosaic_rect cfg idx y x then rgb ! nat idx
                                else c_px img y x) \<rparr>"
  have body: "mosaic_body cfg rgb idx img = Inr img1"
    unfolding img1_def using Cons.prems assms(1) by (intro mosaic_body_ref) simp_all
  have r1: "c_rows img1 = 1080" "c_cols img1 = 1920"
    using Cons.prems by (simp_all add: img1_def)
  have rest: "\<forall>i \<in> set idxs. 0 \<le> i \<and> i < 24 \<and> i < int (length rgb)"
    using Cons.prems by simp
  from Cons.IH [OF rest r1] obtain img' where
    l: "mosaic_loop cfg rgb idxs img1 = Inr img'"
    and s: "c_rows img' = 1080" "c_cols img' = 1920"
    and u: "\<And>y x. (\<forall>i \<in> set idxs. \<not> in_mosaic_rect cfg i y x) \<Longrightarrow> c_px img' y x = c_px img1 y x"
    and p: "\<And>j y x. j \<in> set idxs \<Longrightarrow> in_mosaic_rect cfg j y x \<Longrightarrow> c_px img' y x = rgb ! nat j"
    by blast
  have "mosaic_loop cfg rgb (idx # idxs) img = Inr img'"
    by (simp add: body l)
  moreover have "c_px img' y x = c_px img y x"
    if "\<forall>i \<in> set (idx # idxs). \<not> in_mosaic_rect cfg i y x" for y x
    using that u [of y x] by (simp add: img1_def)
  moreover have "c_px img' y x = rgb ! nat j"
    if "j \<in> set (idx # idxs)" "in_mosaic_rect cfg j y x" for j y x
  proof (cases "\<exists>i \<in> set idxs. in_mosaic_rect cfg i y x")
    case True
    then obtain i where i: "i \<in> set idxs" "in_mosaic_rect cfg i y x" by blast
    have "i = j"
      using mosaic_rects_disjoint [OF assms(1) _ _ _ _ i(2) that(2)] i(1) that(1) Cons.prems(1)
      by auto
    then show ?thesis using p [OF i] by simp
  next
    case False
    then have "j = idx" using that by auto
    moreover have "c_px img' y x = c_px img1 y x" using u False by blast
    ultimately show ?thesis using that(2) by (simp add: img1_def)
  qed
  ultimately show ?case using s by blast
qed


lemma length_COLOR_CHECKER_EACH_NAME: "length COLOR_CHECKER_EACH_NAME = 24"
  by (simp add: COLOR_CHECKER_EACH_NAME_def)

lemma py_index_inside: "0 \<le> i \<Longrightarrow> i < int (length xs) \<Longrightarrow> py_index xs i = Inr (xs ! nat i)"
  by (simp add: py_index_def)

lemma each_patch_loop_ref:
  assumes "reference_layout cfg"
    and "c_rows img = 1080" "c_cols img = 1920" "c_rows patch = 288" "c_cols patch = 288"
    and "\<forall>idx \<in> set idxs. 0 \<le> idx \<and> idx < 24 \<and> idx < int (length rgb)"
  shows "each_patch_loop cfg rgb idxs patch img es =
           (es @ map (\<lambda>idx. Imwrite
                        (measure_file_str (cs_name (COLOR_SPACE cfg)) (OETF_TYPE cfg) (idx + 1)
                           (COLOR_CHECKER_EACH_NAME ! nat idx))
                        (get_16bit_img cfg (reverse_channels
                           (img \<lparr> c_px := (\<lambda>y x. if in_each_rect cfg y x then rgb ! nat idx
                                                else c_px img y x) \<rparr>)))) idxs,
            None)"
  using assms(2-)
proof (induction idxs arbitrary: patch img es)
  case Nil
  then show ?case by simp
next
  case (Cons idx idxs)
  define img1 where
    "img1 = img \<lparr> c_px := (\<lambda>y x. if in_each_rect cfg y x then rgb ! nat idx else c_px img y x) \<rparr>"
  have i: "0 \<le> idx" "idx < 24" "idx < int (length rgb)"
    using Cons.prems by simp_all
  have c: "py_index rgb idx = Inr (rgb ! nat idx)"
    using i by (simp add: py_index_inside)
  have n: "py_index COLOR_CHECKER_EACH_NAME idx = Inr (COLOR_CHECKER_EACH_NAME ! nat idx)"
    using i by (simp add: py_index_inside length_COLOR_CHECKER_EACH_NAME)
  have "assign_slice img 396 684 816 1104 (fill_patch patch (rgb ! nat idx)) =
          Inr (img \<lparr> c_px := (\<lambda>y x. if 396 \<le> y \<and> y < 684 \<and> 816 \<le> x \<and> x < 1104
                                   then rgb ! nat idx else c_px img y x) \<rparr>)"
    using Cons.prems by (intro assign_slice_inside) simp_all
  then have a: "assign_slice img (each_st_v cfg) (each_st_v cfg + each_patch_height cfg)
                  (each_st_h cfg) (each_st_h cfg + each_patch_width cfg)
                  (fill_patch patch (rgb ! nat idx)) = Inr img1"
    using assms(1) by (simp add: layout_ref in_each_rect_ref img1_def)
  have over: "img1 \<lparr> c_px := (\<lambda>y x. if in_each_rect cfg y x then v else c_px img1 y x) \<rparr> =
              img \<lparr> c_px := (\<lambda>y x. if in_each_rect cfg y x then v else c_px img y x) \<rparr>" for v
    by (simp add: img1_def cong: if_cong)
  have r1: "c_rows img1 = 1080" "c_cols img1 = 1920"
    "c_rows (fill_patch patch (rgb ! nat idx)) = 288"
    "c_cols (fill_patch patch (rgb ! nat idx)) = 288"
    using Cons.prems by (simp_all add: img1_def fill_patch_def)
  have rest: "\<forall>i \<in> set idxs. 0 \<le> i \<and> i < 24 \<and> i < int (length rgb)"
    using Cons.prems by simp
  show ?case
    by (simp add: c n a Cons.IH [OF r1 rest] over) (simp add: img1_def)
qed


lemma float_of_int_IMG_MAX_LEVEL:
  "float_of_int (IMG_MAX_LEVEL (default_config lib)) = 65535"
  unfolding float_of_int_def using fl64_eval [of "15" "65535"]
  by (simp add: default_config_def fl64_simps)

lemma get_16bit_value_default:
  "get_16bit_value (default_config lib) v = np_uint16 (np_round (fmul v 65535))"
  by (simp add: get_16bit_value_def float_of_int_IMG_MAX_LEVEL)

lemma uint_get_16bit_value:
  "uint (get_16bit_value (default_config lib) v) = np_round (fmul v 65535) mod 2 ^ 16"
  by (simp add: get_16bit_value_default np_uint16_def uint_word_of_int)

lemma get_16bit_value_zero: "get_16bit_value cfg 0 = 0"
  by (simp add: get_16bit_value_def fmul_def np_uint16_def np_round_def)

lemma binary64_products:
  "fmul 1 65535 = 65535"
  "fmul (1 / 2) 65535 = 65535 / 2"
  "fmul (1 / 4) 65535 = 65535 / 4"
  "fmul (7 / 24) 65535 = 152915 / 8"
  "fmul (- 1 / 2) 65535 = - (65535 / 2)"
  "fmul (- 1) 65535 = - 65535"
  "fmul (3 / 2) 65535 = 196605 / 2"
  "fmul 2 65535 = 131070"
  "fmul (844437815230467 / 2 ^ 65) 65535 = 3 / 2"
proof -
  show "fmul 1 65535 = 65535"
    unfolding fmul_def using fl64_eval [of "15" "1 * 65535"]
    by (simp add: fl64_simps)
  show "fmul (1 / 2) 65535 = 65535 / 2"
    unfolding fmul_def using fl64_eval [of "14" "(1 / 2) * 65535"]
    by (simp add: fl64_simps)
  show "fmul (1 / 4) 65535 = 65535 / 4"
    unfolding fmul_def using fl64_eval [of "13" "(1 / 4) * 65535"]
    by (simp add: fl64_simps)
  show "fmul (7 / 24) 65535 = 152915 / 8"
    unfolding fmul_def using fl64_eval [of "14" "(7 / 24) * 65535"]
    by (simp add: fl64_simps)
  show "fmul (- 1 / 2) 65535 = - (65535 / 2)"
    unfolding fmul_def using fl64_eval [of "14" "(- 1 / 2) * 65535"]
    by (simp add: fl64_simps)
  show "fmul (- 1) 65535 = - 65535"
    unfolding fmul_def using fl64_eval [of "15" "(- 1) * 65535"]
    by (simp add: fl64_simps)
  show "fmul (3 / 2) 65535 = 196605 / 2"
    unfolding fmul_def using fl64_eval [of "16" "(3 / 2) * 65535"]
    by (simp add: fl64_simps)
  show "fmul 2 65535 = 131070"
    unfolding fmul_def using fl64_eval [of "16" "2 * 65535"]
    by (simp add: fl64_simps)
  show "fmul (844437815230467 / 2 ^ 65) 65535 = 3 / 2"
    unfolding fmul_def using fl64_eval [of "0" "(844437815230467 / 2 ^ 65) * 65535"]
    by (simp add: fl64_simps)
qed

lemma get_16bit_value_examples:
  "get_16bit_value (default_config lib) 0 = 0"
  "get_16bit_value (default_config lib) 1 = 65535"
  "get_16bit_value (default_config lib) (1 / 2) = 32768"
  "get_16bit_value (default_config lib) (1 / 4) = 16384"
  "get_16bit_value (default_config lib) (7 / 24) = 19114"
  "get_16bit_value (default_config lib) (- 1 / 2) = 32768"
  "get_16bit_value (default_config lib) (- 1) = 1"
  "get_16bit_value (default_config lib) (3 / 2) = 32766"
  "get_16bit_value (default_config lib) 2 = 65534"
  "get_16bit_value (default_config lib) (844437815230467 / 2 ^ 65) = 2"
  by (simp add: get_16bit_value_zero)
    (simp_all only: get_16bit_value_default binary64_products,
     simp_all add: np_uint16_def fl64_simps)

lemma py_range_grid: "py_range (h_num * v_num) = map int [0..<24]"
  by (simp add: py_range_def h_num_def v_num_def)

lemma in_py_range_grid: "i \<in> set (py_range (h_num * v_num)) \<longleftrightarrow> 0 \<le> i \<and> i < 24"
proof
  assume "i \<in> set (py_range (h_num * v_num))"
  then show "0 \<le> i \<and> i < 24" by (auto simp: py_range_grid)
next
  assume a: "0 \<le> i \<and> i < 24"
  then have "nat i \<in> set [0..<24]" "i = int (nat i)" by auto
  then show "i \<in> set (py_range (h_num * v_num))"
    unfolding py_range_grid set_map by (rule_tac image_eqI)
qed

lemma make_color_checker_image_ref:
  assumes "reference_layout cfg" "24 \<le> length rgb"
  shows "\<exists>m. make_color_checker_image cfg rgb =
           (Imshow (reverse_channels m)
            # Imwrite (all_patch_file_str (cs_name (COLOR_SPACE cfg)) (OETF_TYPE cfg))
                (get_16bit_img cfg (reverse_channels m))
            # map (\<lambda>idx. Imwrite
                       (measure_file_str (cs_name (COLOR_SPACE cfg)) (OETF_TYPE cfg) (idx + 1)
                          (COLOR_CHECKER_EACH_NAME ! nat idx))
                       (get_16bit_img cfg (reverse_channels
                          \<lparr> c_rows = 1080, c_cols = 1920,
                            c_px = (\<lambda>y x. if in_each_rect cfg y x then rgb ! nat idx
                                          else (0, 0, 0)) \<rparr>)))
                (py_range (h_num * v_num)),
            None) \<and>
           c_rows m = 1080 \<and> c_cols m = 1920 \<and>
           (\<forall>y x. (\<forall>i. 0 \<le> i \<and> i < 24 \<longrightarrow> \<not> in_mosaic_rect cfg i y x) \<longrightarrow> c_px m y x = (0, 0, 0)) \<and>
           (\<forall>j y x. 0 \<le> j \<and> j < 24 \<and> in_mosaic_rect cfg j y x \<longrightarrow> c_px m y x = rgb ! nat j)"
proof -
  define z :: "vec3 canvas" where
    "z = \<lparr> c_rows = 1080, c_cols = 1920, c_px = (\<lambda>y x. (0, 0, 0)) \<rparr>"
  define one :: "vec3 canvas" where
    "one = \<lparr> c_rows = 288, c_cols = 288, c_px = (\<lambda>y x. (1, 1, 1)) \<rparr>"
  have zs: "np_zeros (IMG_HEIGHT cfg) (IMG_WIDTH cfg) = Inr z"
    using assms(1) by (simp add: np_zeros_def np_full_def layout_ref z_def)
  have os: "np_ones (each_patch_height cfg) (each_patch_width cfg) = Inr one"
    using assms(1) by (simp add: np_ones_def np_full_def layout_ref one_def)
  have idxs: "\<forall>idx \<in> set (py_range (h_num * v_num)). 0 \<le> idx \<and> idx < 24 \<and> idx < int (length rgb)"
    using assms(2) by (auto simp: in_py_range_grid)
  have zr: "c_rows z = 1080" "c_cols z = 1920" by (simp_all add: z_def)
  have orc: "c_rows one = 288" "c_cols one = 288" by (simp_all add: one_def)
  from mosaic_loop_ref [OF assms(1) idxs zr] obtain m where
    l: "mosaic_loop cfg rgb (py_range (h_num * v_num)) z = Inr m"
    and s: "c_rows m = 1080" "c_cols m = 1920"
    and u: "\<And>y x. (\<forall>i \<in> set (py_range (h_num * v_num)). \<not> in_mosaic_rect cfg i y x)
               \<Longrightarrow> c_px m y x = c_px z y x"
    and p: "\<And>j y x. j \<in> set (py_range (h_num * v_num)) \<Longrightarrow> in_mosaic_rect cfg j y x
               \<Longrightarrow> c_px m y x = rgb ! nat j"
    by blast
  have e: "each_patch_loop cfg rgb (py_range (h_num * v_num)) one z es =
           (es @ map (\<lambda>idx. Imwrite
                        (measure_file_str (cs_name (COLOR_SPACE cfg)) (OETF_TYPE cfg) (idx + 1)
                           (COLOR_CHECKER_EACH_NAME ! nat idx))
                        (get_16bit_img cfg (reverse_channels
                           \<lparr> c_rows = 1080, c_cols = 1920,
                             c_px = (\<lambda>y x. if in_each_rect cfg y x then rgb ! nat idx
                                           else (0, 0, 0)) \<rparr>)))
                  (py_range (h_num * v_num)),
            None)" for es
  proof -
    have zu: "z \<lparr> c_px := f \<rparr> = \<lparr> c_rows = 1080, c_cols = 1920, c_px = f \<rparr>" for f
      by (simp add: z_def)
    have zp: "c_px z = (\<lambda>y x. (0, 0, 0))" by (simp add: z_def)
    show ?thesis
      using each_patch_loop_ref [OF assms(1) zr orc idxs, of es] by (simp only: zu zp)
  qed
  have "make_color_checker_image cfg rgb =
           (Imshow (reverse_channels m)
            # Imwrite (all_patch_file_str (cs_name (COLOR_SPACE cfg)) (OETF_TYPE cfg))
                (get_16bit_img cfg (reverse_channels m))
            # map (\<lambda>idx. Imwrite
                       (measure_file_str (cs_name (COLOR_SPACE cfg)) (OETF_TYPE cfg) (idx + 1)
                          (COLOR_CHECKER_EACH_NAME ! nat idx))
                       (get_16bit_img cfg (reverse_channels
                          \<lparr> c_rows = 1080, c_cols = 1920,
                            c_px = (\<lambda>y x. if in_each_rect cfg y x then rgb ! nat idx
                                          else (0, 0, 0)) \<rparr>)))
                (py_range (h_num * v_num)),
            None)"
    by (simp add: make_color_checker_image_def zs l preview_image_def os e Let_def)
  moreover have "c_px m y x = (0, 0, 0)"
    if "\<forall>i. 0 \<le> i \<and> i < 24 \<longrightarrow> \<not> in_mosaic_rect cfg i y x" for y x
    using u [of y x] that by (simp add: in_py_range_grid z_def)
  moreover have "c_px m y x = rgb ! nat j"
    if "0 \<le> j \<and> j < 24 \<and> in_mosaic_rect cfg j y x" for j y x
    using p [of j y x] that by (simp add: in_py_range_grid)
  ultimately show ?thesis using s by blast
qed


lemma mosaic_rects_ref:
  "reference_layout cfg \<Longrightarrow>
     mosaic_rects cfg =
       map (\<lambda>idx. (226 + 250 * (idx mod 6), 51 + 250 * (idx div 6),
                    466 + 250 * (idx mod 6), 291 + 250 * (idx div 6)))
           (py_range (h_num * v_num))"
  by (simp add: mosaic_rects_def mosaic_origin_ref layout_ref)

lemma upt_24: "[0..<24] = [0,1,2,3,4,5,6,7,8,9,10,11,12,13,14,15,16,17,18,19,20,21,22,23]"
  by (simp add: upt_rec)

lemma bounding_box_ref:
  "reference_layout cfg \<Longrightarrow> bounding_box (mosaic_rects cfg) = Some (226, 51, 1716, 1041)"
  by (simp add: mosaic_rects_ref py_range_grid upt_24)

lemma row_major_order:
  fixes i j :: int
  assumes "0 \<le> i" "i < j" "j < 24"
  shows "i div 6 < j div 6 \<or> (i div 6 = j div 6 \<and> i mod 6 < j mod 6)"
  using assms by presburger

lemma length_demo_rgb: "length demo_rgb = 24"
  by (simp add: demo_rgb_def)

lemma py_range_grid_nth: "i < 24 \<Longrightarrow> py_range (h_num * v_num) ! i = int i"
  by (simp add: py_range_grid)

lemma length_py_range_grid: "length (py_range (h_num * v_num)) = 24"
  by (simp add: py_range_grid)

lemma main_func_encoded:
  assumes "COLOURCHECKERS lib (COLOR_CHECKER_NAME cfg) = Some (name, data, wp)"
    and "OETF_FUNC lib cfg = Some f"
  shows "main_func lib cfg =
           \<lparr> run_large_xyz = Some (map (xyY_to_XYZ lib) (map (\<lambda>(index, label, xyY). xyY) data)),
             run_illuminant = Some wp,
             run_rgb = Some (get_linear_rgb_from_large_xyz lib cfg
                        (map (xyY_to_XYZ lib) (map (\<lambda>(index, label, xyY). xyY) data)) wp
                        (COLOR_SPACE cfg)),
             run_rgb_prime = Some (map f (map (scale_rgb (TARGET_BRIGHTNESS cfg))
                        (get_linear_rgb_from_large_xyz lib cfg
                           (map (xyY_to_XYZ lib) (map (\<lambda>(index, label, xyY). xyY) data)) wp
                           (COLOR_SPACE cfg)))),
             run_effects = fst (make_color_checker_image cfg
                        (map f (map (scale_rgb (TARGET_BRIGHTNESS cfg))
                           (get_linear_rgb_from_large_xyz lib cfg
                              (map (xyY_to_XYZ lib) (map (\<lambda>(index, label, xyY). xyY) data)) wp
                              (COLOR_SPACE cfg))))),
             run_error = snd (make_color_checker_image cfg
                        (map f (map (scale_rgb (TARGET_BRIGHTNESS cfg))
                           (get_linear_rgb_from_large_xyz lib cfg
                              (map (xyY_to_XYZ lib) (map (\<lambda>(index, label, xyY). xyY) data)) wp
                              (COLOR_SPACE cfg))))) \<rparr>"
  using assms
  by (simp add: main_func_def get_colorchecker_large_xyz_and_whitepoint_def
      get_rgb_with_prime_def Let_def split: prod.splits)

lemma main_func_not_callable:
  assumes "COLOURCHECKERS lib (COLOR_CHECKER_NAME cfg) = Some (name, data, wp)"
    and "OETF_FUNC lib cfg = None"
  shows "main_func lib cfg =
           \<lparr> run_large_xyz = Some (map (xyY_to_XYZ lib) (map (\<lambda>(index, label, xyY). xyY) data)),
             run_illuminant = Some wp,
             run_rgb = Some (get_linear_rgb_from_large_xyz lib cfg
                        (map (xyY_to_XYZ lib) (map (\<lambda>(index, label, xyY). xyY) data)) wp
                        (COLOR_SPACE cfg)),
             run_rgb_prime = None,
             run_effects = [],
             run_error = Some (TypeError ''NoneType object is not callable'') \<rparr>"
  using assms
  by (simp add: main_func_def get_colorchecker_large_xyz_and_whitepoint_def
      get_rgb_with_prime_def Let_def)

lemma main_func_no_chart:
  assumes "COLOURCHECKERS lib (COLOR_CHECKER_NAME cfg) = None"
  shows "main_func lib cfg =
           \<lparr> run_large_xyz = None, run_illuminant = None, run_rgb = None, run_rgb_prime = None,
             run_effects = [],
             run_error = Some (TypeError ''cannot unpack non-iterable NoneType object'') \<rparr>"
  using assms
  by (simp add: main_func_def get_colorchecker_large_xyz_and_whitepoint_def)

lemma length_get_linear_rgb [simp]:
  "length (get_linear_rgb_from_large_xyz lib cfg large_xyz wp cs) = length large_xyz"
  by (simp add: get_linear_rgb_from_large_xyz_def)

lemma OETF_FUNC_unknown:
  "OETF_TYPE cfg \<noteq> ''HLG'' \<Longrightarrow> OETF_TYPE cfg \<noteq> ''ST2084'' \<Longrightarrow> OETF_FUNC lib cfg = None"
  by (simp add: OETF_FUNC_def)

lemma demo_chart_found:
  "COLOURCHECKERS demo_lib (COLOR_CHECKER_NAME (default_config demo_lib \<lparr> OETF_TYPE := t \<rparr>)) =
     Some (''ColorChecker 2005'', demo_data, (3457 / 10000, 3585 / 10000))"
  by (simp add: demo_lib_def default_config_def demo_chart_def)

lemma length_demo_data: "length demo_data = 24"
  by (simp add: demo_data_def)

lemma demo_OETF_FUNC:
  "OETF_FUNC demo_lib (default_config demo_lib) = Some (eotf_reverse_BT2100_HLG demo_lib)"
  by (simp add: OETF_FUNC_def default_config_def)

lemma demo_chart_found_default:
  "COLOURCHECKERS demo_lib (COLOR_CHECKER_NAME (default_config demo_lib)) =
     Some (''ColorChecker 2005'', demo_data, (3457 / 10000, 3585 / 10000))"
  by (simp add: demo_lib_def default_config_def demo_chart_def)

lemma mosaic_rects_count:
  "reference_layout cfg \<Longrightarrow> length (mosaic_rects cfg) = 24 \<and> distinct (mosaic_rects cfg)"
  by (simp add: mosaic_rects_ref py_range_grid upt_24)

lemma OETF_FUNC_known:
  "OETF_TYPE cfg = ''HLG'' \<or> OETF_TYPE cfg = ''ST2084'' \<Longrightarrow> \<exists>f. OETF_FUNC lib cfg = Some f"
  by (auto simp: OETF_FUNC_def)

lemma demo_file_names:
  "measure_file_str (cs_name (COLOR_SPACE (default_config demo_lib \<lparr> OETF_TYPE := ''HLG'' \<rparr>)))
     ''HLG'' (int 0 + 1) (COLOR_CHECKER_EACH_NAME ! 0) =
   ''./output/ColorChecker_Measure_Patch_ITU-R BT.2020_HLG_01_dark skin.tiff''"
  "measure_file_str (cs_name (COLOR_SPACE (default_config demo_lib \<lparr> OETF_TYPE := ''HLG'' \<rparr>)))
     ''HLG'' (int 23 + 1) (COLOR_CHECKER_EACH_NAME ! 23) =
   ''./output/ColorChecker_Measure_Patch_ITU-R BT.2020_HLG_24_black 2.tiff''"
  by (simp_all add: measure_file_str_def fmt_02d_def dec_str.simps digit_char_def
      COLOR_CHECKER_EACH_NAME_def default_config_def demo_lib_def)

lemma pow2_values:
  "pow2 0 = 1" "pow2 16 = 65536" "pow2 53 = 9007199254740992" "pow2 (- 38) = 1 / 2 ^ 38"
  by (simp_all add: pow2_numeral)

lemma fl64_product_in_range:
  assumes "0 \<le> v" "v \<le> 1"
  shows "0 \<le> fl64 (v * 65535) \<and> fl64 (v * 65535) \<le> 65535 \<and>
         \<bar>fl64 (v * 65535) - v * 65535\<bar> \<le> 1 / 2 ^ 38"
proof -
  have x: "0 \<le> v * 65535" "v * 65535 \<le> 65535" using assms by simp_all
  then have a: "\<bar>v * 65535\<bar> < pow2 (0 + 53)" "\<bar>v * 65535\<bar> < pow2 16"
    by (simp_all add: pow2_values)
  have "of_int 0 * pow2 0 \<le> fl64 (v * 65535)"
    using x a(1) by (intro fl64_ge_grid) (simp_all add: pow2_values)
  moreover have "fl64 (v * 65535) \<le> of_int 65535 * pow2 0"
    using x a(1) by (intro fl64_le_grid) (simp_all add: pow2_values)
  moreover have "\<bar>fl64 (v * 65535) - v * 65535\<bar> \<le> pow2 (16 - 54)"
    using a(2) by (intro fl64_error) simp_all
  ultimately show ?thesis by (simp add: pow2_values)
qed

lemma fl64_product_int32:
  assumes "- 32768 \<le> v" "v \<le> 32768"
  shows "- 2147450880 \<le> fl64 (v * 65535) \<and> fl64 (v * 65535) \<le> 2147450880"
proof -
  have x: "- 2147450880 \<le> v * 65535" "v * 65535 \<le> 2147450880" using assms by simp_all
  then have a: "\<bar>v * 65535\<bar> < pow2 (0 + 53)"
    by (simp add: pow2_values abs_less_iff)
  have "of_int (- 2147450880) * pow2 0 \<le> fl64 (v * 65535)"
    using x a by (intro fl64_ge_grid) (simp_all add: pow2_values)
  moreover have "fl64 (v * 65535) \<le> of_int 2147450880 * pow2 0"
    using x a by (intro fl64_le_grid) (simp_all add: pow2_values)
  ultimately show ?thesis by (simp add: pow2_values)
qed

subsection \<open>Bounds on the curves of ITU-R BT.2100\<close>

lemma root_bound_upper:
  fixes x c :: real
  assumes "0 < x" "0 \<le> c" "0 < n" "x ^ m \<le> c ^ n"
  shows "x powr (real m / real n) \<le> c"
proof -
  have "(x powr (real m / real n)) ^ n = x powr (real m / real n * real n)"
    using assms(1) by (simp add: powr_powr flip: powr_realpow)
  also have "\<dots> = x ^ m" using assms(1,3) by (simp add: powr_realpow)
  finally have "(x powr (real m / real n)) ^ n \<le> c ^ n" using assms(4) by simp
  then show ?thesis using assms(2,3) by (simp add: power_mono_iff)
qed

lemma root_bound_lower:
  fixes x c :: real
  assumes "0 < x" "0 \<le> c" "0 < n" "c ^ n \<le> x ^ m"
  shows "c \<le> x powr (real m / real n)"
proof -
  have "(x powr (real m / real n)) ^ n = x powr (real m / real n * real n)"
    using assms(1) by (simp add: powr_powr flip: powr_realpow)
  also have "\<dots> = x ^ m" using assms(1,3) by (simp add: powr_realpow)
  finally have "c ^ n \<le> (x powr (real m / real n)) ^ n" using assms(4) by simp
  then show ?thesis using assms(2,3) by (simp add: power_mono_iff)
qed

lemma hlg_scene_light:
  "ref_ootf_reverse_BT2100_HLG (50, 50, 50) =
     ((1 / 20) powr (5 / 6), (1 / 20) powr (5 / 6), (1 / 20) powr (5 / 6))"
proof -
  have "(1 / 20 :: real) powr (- 1 / 6) * (1 / 20) = (1 / 20) powr (- 1 / 6) * (1 / 20) powr 1"
    by simp
  also have "\<dots> = (1 / 20) powr (- 1 / 6 + 1)" by (simp only: powr_add)
  finally have k: "(1 / 20 :: real) powr (- 1 / 6) * (1 / 20) = (1 / 20) powr (5 / 6)" by simp
  have "(1 / 20 :: real) powr (- 1 / 6) * 50 / 1000 = (1 / 20) powr (- 1 / 6) * (1 / 20)" by simp
  with k have "(1 / 20 :: real) powr (- 1 / 6) * 50 / 1000 = (1 / 20) powr (5 / 6)" by simp
  then show ?thesis
    by (simp add: ref_ootf_reverse_BT2100_HLG_def Let_def)
qed

lemma hlg_scene_light_bounds:
  "801 / 10000 \<le> (1 / 20 :: real) powr (5 / 6)" "(1 / 20 :: real) powr (5 / 6) \<le> 1 / 12"
proof -
  have a: "(801 / 10000 :: real) ^ 6 \<le> (1 / 20) ^ 5" by (simp add: power_divide)
  have b: "(1 / 20 :: real) ^ 5 \<le> (1 / 12) ^ 6" by (simp add: power_divide)
  have e: "(5 / 6 :: real) = real 5 / real 6" by simp
  show "801 / 10000 \<le> (1 / 20 :: real) powr (5 / 6)"
    unfolding e by (rule root_bound_lower [OF _ _ _ a]) simp_all
  show "(1 / 20 :: real) powr (5 / 6) \<le> 1 / 12"
    unfolding e by (rule root_bound_upper [OF _ _ _ b]) simp_all
qed

lemma hlg_value_bounds:
  "49 / 100 \<le> ref_oetf_BT2100_HLG ((1 / 20) powr (5 / 6))"
  "ref_oetf_BT2100_HLG ((1 / 20) powr (5 / 6)) \<le> 1 / 2"
proof -
  define E :: real where "E = (1 / 20) powr (5 / 6)"
  have b: "801 / 10000 \<le> E" "E \<le> 1 / 12"
    using hlg_scene_light_bounds by (simp_all add: E_def)
  then have v: "ref_oetf_BT2100_HLG E = sqrt (12 * E) / 2"
    by (simp add: ref_oetf_BT2100_HLG_def)
  have "(98 / 100)\<^sup>2 \<le> 12 * E" using b(1) by (simp add: power2_eq_square)
  then have "98 / 100 \<le> sqrt (12 * E)" by (rule real_le_rsqrt)
  then show "49 / 100 \<le> ref_oetf_BT2100_HLG ((1 / 20) powr (5 / 6))"
    unfolding E_def [symmetric] v by simp
  have "sqrt (12 * E) \<le> 1" using b(2) by (intro real_le_lsqrt) simp_all
  then show "ref_oetf_BT2100_HLG ((1 / 20) powr (5 / 6)) \<le> 1 / 2"
    unfolding E_def [symmetric] v by simp
qed

lemma pq_value_bound: "ref_oetf_ST2084_value 50 < 47 / 100"
proof -
  define Y :: real where "Y = (1 / 200) powr (1305 / 8192)"
  define r :: real where "r = (107 / 128 + 2413 / 128 * Y) / (299 / 16 * Y + 1)"
  have v: "ref_oetf_ST2084_value 50 = r powr (2523 / 32)"
    by (simp add: ref_oetf_ST2084_value_def Let_def r_def Y_def)
  have y0: "0 \<le> Y" by (simp add: Y_def)
  have "Y \<le> (1 / 200) powr (5 / 32)"
    unfolding Y_def by (rule powr_mono') simp_all
  also have "\<dots> \<le> 44 / 100"
  proof -
    have a: "(1 / 200 :: real) ^ 5 \<le> (44 / 100) ^ 32" by (simp add: power_divide)
    have e: "(5 / 32 :: real) = real 5 / real 32" by simp
    show ?thesis unfolding e by (rule root_bound_upper [OF _ _ _ a]) simp_all
  qed
  finally have y1: "Y \<le> 44 / 100" .
  have d: "0 < 299 / 16 * Y + 1" using y0 by simp
  have r0: "0 \<le> r" using y0 by (simp add: r_def)
  have "107 / 128 + 2413 / 128 * Y \<le> 9901 / 10000 * (299 / 16 * Y + 1)"
    using y0 y1 by simp
  then have r1: "r \<le> 9901 / 10000"
    unfolding r_def using d by (simp only: pos_divide_le_eq)
  have "r powr (2523 / 32) \<le> (9901 / 10000) powr (2523 / 32)"
    using r0 r1 by (intro powr_mono2) simp_all
  also have "\<dots> \<le> (9901 / 10000) powr 78"
    by (rule powr_mono') simp_all
  also have "\<dots> = (9901 / 10000) ^ 78" by simp
  also have "\<dots> < 47 / 100" by (simp add: power_divide)
  finally show ?thesis unfolding v .
qed

lemma hlg_upper_branch:
  assumes "1 < 12 * E - 28466892 / 100000000"
  shows "1 / 2 < ref_oetf_BT2100_HLG E"
proof -
  have c: "\<not> 12 * E \<le> 1" using assms by simp
  have "0 < ln (12 * E - 28466892 / 100000000)" using assms by simp
  then have "0 < 17883277 / 100000000 * ln (12 * E - 28466892 / 100000000)"
    by (simp only: zero_less_mult_iff) simp
  then have "1 / 2 < 17883277 / 100000000 * ln (12 * E - 28466892 / 100000000)
                      + 55991073 / 100000000"
    by linarith
  then show ?thesis
    unfolding ref_oetf_BT2100_HLG_def using c by (simp only: if_False)
qed

lemma plain_hlg_value_bound: "1 / 2 < ref_oetf_BT2100_HLG 50"
  by (rule hlg_upper_branch) simp

lemma plain_hlg_normalised_bound: "ref_oetf_BT2100_HLG (1 / 20) \<le> 40 / 100"
proof -
  have "sqrt (12 * (1 / 20 :: real)) \<le> 8 / 10"
    by (rule real_le_lsqrt) (simp_all add: power2_eq_square)
  then show ?thesis by (simp add: ref_oetf_BT2100_HLG_def)
qed

lemma hlg_encoded_half:
  "ref_eotf_reverse_BT2100_HLG (50, 50, 50) =
     (ref_oetf_BT2100_HLG ((1 / 20) powr (5 / 6)),
      ref_oetf_BT2100_HLG ((1 / 20) powr (5 / 6)),
      ref_oetf_BT2100_HLG ((1 / 20) powr (5 / 6)))"
  by (simp only: ref_eotf_reverse_BT2100_HLG_def hlg_scene_light prod.case)

lemma pq_encoded_half:
  "ref_oetf_ST2084 (50, 50, 50) =
     (ref_oetf_ST2084_value 50, ref_oetf_ST2084_value 50, ref_oetf_ST2084_value 50)"
  by (simp only: ref_oetf_ST2084_def prod.case)

lemma scale_half_real: "scale_rgb 100 (1 / 2 :: real, 1 / 2, 1 / 2) = (50, 50, 50)"
  by (simp add: scale_rgb_def)

section \<open>Quantisation\<close>

text \<open>
  C5: the quantisation maps an encoded value of exactly 0.0 to 0, exactly 1.0 to 65535
  and exactly 0.5 to 32768, the rounding of 32767.5.
\<close>

theorem quantization_of_zero_one_half:
  "get_16bit_value (default_config lib) 0 = 0 \<and>
   get_16bit_value (default_config lib) 1 = 65535 \<and>
   get_16bit_value (default_config lib) (1 / 2) = 32768 \<and>
   (1 / 2) * of_int (IMG_MAX_LEVEL (default_config lib)) = (65535 / 2 :: rat) \<and>
   np_round (65535 / 2) = 32768"
  by (simp add: get_16bit_value_examples)
    (simp add: default_config_def np_round_def Let_def floor_rat_numeral_div)

text \<open>
  C4: the quantisation works on every channel of every pixel: it multiplies the value
  by 65535 in binary64, rounds the product to the nearest integer, ties to even, and
  converts it to 16 bits. For a value in \<open>[0, 1]\<close> the rounded product lies in
  \<open>0..65535\<close> and is the result as it is, within \<open>1/2\<close> of the binary64 product, which
  is within \<open>2 ^ (- 38)\<close> of the exact product. Nothing is clamped: for a value between
  \<open>-32768\<close> and \<open>32768\<close> the rounded product fits in 32 bits and the result is that
  integer reduced modulo \<open>2 ^ 16\<close>, so \<open>-0.5\<close> gives 32768 and \<open>-1\<close> gives 1, not 0, and
  \<open>1.5\<close> gives 32766 and \<open>2\<close> gives 65534, not 65535. The float nearest to \<open>1.5 / 65535\<close>
  gives 2, since its binary64 product with 65535 is exactly 1.5.
\<close>

theorem quantization_scales_rounds_and_wraps:
  "(\<forall>img y x. c_px (get_16bit_img (default_config lib) img) y x =
      (case c_px img y x of
         (c0, c1, c2) \<Rightarrow>
           (get_16bit_value (default_config lib) c0,
            get_16bit_value (default_config lib) c1,
            get_16bit_value (default_config lib) c2))) \<and>
   (\<forall>v. get_16bit_value (default_config lib) v = np_uint16 (np_round (fmul v 65535))) \<and>
   (\<forall>v. 0 \<le> v \<and> v \<le> 1 \<longrightarrow>
      0 \<le> np_round (fmul v 65535) \<and> np_round (fmul v 65535) \<le> 65535 \<and>
      uint (get_16bit_value (default_config lib) v) = np_round (fmul v 65535) \<and>
      \<bar>of_int (uint (get_16bit_value (default_config lib) v)) - fmul v 65535\<bar> \<le> 1 / 2 \<and>
      \<bar>fmul v 65535 - v * 65535\<bar> \<le> 1 / 2 ^ 38) \<and>
   (\<forall>v. - 32768 \<le> v \<and> v \<le> 32768 \<longrightarrow>
      - (2 ^ 31) < np_round (fmul v 65535) \<and> np_round (fmul v 65535) < 2 ^ 31 \<and>
      uint (get_16bit_value (default_config lib) v) = np_round (fmul v 65535) mod 2 ^ 16) \<and>
   get_16bit_value (default_config lib) (- 1 / 2) = 32768 \<and>
   get_16bit_value (default_config lib) (- 1) = 1 \<and>
   get_16bit_value (default_config lib) (3 / 2) = 32766 \<and>
   get_16bit_value (default_config lib) 2 = 65534 \<and>
   get_16bit_value (default_config lib) (844437815230467 / 2 ^ 65) = 2"
proof -
  let ?q = "get_16bit_value (default_config lib)"
  have f: "fmul v 65535 = fl64 (v * 65535)" for v
    by (simp add: fmul_def)
  have d: "?q v = np_uint16 (np_round (fmul v 65535))" for v
    by (rule get_16bit_value_default)
  have w: "uint (?q v) = np_round (fmul v 65535) mod 2 ^ 16" for v
    by (rule uint_get_16bit_value)
  have r: "0 \<le> np_round (fmul v 65535) \<and> np_round (fmul v 65535) \<le> 65535 \<and>
      uint (?q v) = np_round (fmul v 65535) \<and>
      \<bar>of_int (uint (?q v)) - fmul v 65535\<bar> \<le> 1 / 2 \<and>
      \<bar>fmul v 65535 - v * 65535\<bar> \<le> 1 / 2 ^ 38"
    if "0 \<le> v \<and> v \<le> 1" for v
  proof -
    from that have b: "0 \<le> fl64 (v * 65535)" "fl64 (v * 65535) \<le> of_int 65535"
      and e: "\<bar>fl64 (v * 65535) - v * 65535\<bar> \<le> 1 / 2 ^ 38"
      using fl64_product_in_range [of v] by simp_all
    from b have n: "0 \<le> np_round (fl64 (v * 65535)) \<and> np_round (fl64 (v * 65535)) \<le> 65535"
      by (rule np_round_range)
    then have u: "uint (?q v) = np_round (fl64 (v * 65535))"
      by (simp add: w [unfolded f])
    show ?thesis
      unfolding f using n u e np_round_near [of "fl64 (v * 65535)"] by simp
  qed
  have i: "- (2 ^ 31) < np_round (fmul v 65535) \<and> np_round (fmul v 65535) < 2 ^ 31 \<and>
      uint (?q v) = np_round (fmul v 65535) mod 2 ^ 16"
    if "- 32768 \<le> v \<and> v \<le> 32768" for v
  proof -
    from that have b: "of_int (- 2147450880) \<le> fl64 (v * 65535)"
      "fl64 (v * 65535) \<le> of_int 2147450880"
      using fl64_product_int32 [of v] by simp_all
    have "np_round (of_int (- 2147450880)) \<le> np_round (fl64 (v * 65535))"
      "np_round (fl64 (v * 65535)) \<le> np_round (of_int 2147450880)"
      using np_round_mono [OF b(1)] np_round_mono [OF b(2)] by simp_all
    then have "- 2147450880 \<le> np_round (fl64 (v * 65535))"
      "np_round (fl64 (v * 65535)) \<le> 2147450880"
      by (simp_all only: np_round_of_int)
    then show ?thesis unfolding f using w [of v, unfolded f] by simp
  qed
  have p: "c_px (get_16bit_img (default_config lib) img) y x =
      (case c_px img y x of
         (c0, c1, c2) \<Rightarrow> (?q c0, ?q c1, ?q c2))" for img y x
    by (simp add: get_16bit_img_def map_canvas_def)
  show ?thesis
    using p d r i by (simp only: get_16bit_value_examples) blast
qed

theorem quantization_scales_rounds_and_wraps_witness:
  "(0 :: rat) \<le> 1 / 4 \<and> (1 / 4 :: rat) \<le> 1 \<and>
   - 32768 \<le> (3 / 2 :: rat) \<and> (3 / 2 :: rat) \<le> 32768 \<and>
   uint (get_16bit_value (default_config demo_lib) (1 / 4)) = np_round (fmul (1 / 4) 65535) \<and>
   uint (get_16bit_value (default_config demo_lib) (1 / 4)) = 16384 \<and>
   uint (get_16bit_value (default_config demo_lib) (3 / 2)) = np_round (fmul (3 / 2) 65535) mod 2 ^ 16 \<and>
   np_round (fmul (3 / 2) 65535) = 98302"
proof -
  note t = quantization_scales_rounds_and_wraps [of demo_lib]
  have h1: "(0 :: rat) \<le> 1 / 4 \<and> (1 / 4 :: rat) \<le> 1" by simp
  have h2: "- 32768 \<le> (3 / 2 :: rat) \<and> (3 / 2 :: rat) \<le> 32768" by simp
  from t h1 have a: "uint (get_16bit_value (default_config demo_lib) (1 / 4))
      = np_round (fmul (1 / 4) 65535)" by blast
  from t h2 have b: "uint (get_16bit_value (default_config demo_lib) (3 / 2))
      = np_round (fmul (3 / 2) 65535) mod 2 ^ 16" by blast
  have c: "uint (get_16bit_value (default_config demo_lib) (1 / 4)) = 16384"
    by (simp add: get_16bit_value_examples)
  have d: "np_round (fmul (3 / 2) 65535) = 98302"
    by (simp only: binary64_products) (simp add: fl64_simps)
  show ?thesis using h1 h2 a b c d by blast
qed


section \<open>The mosaic\<close>

text \<open>
  C10: in the mosaic, the patch with ordinal \<open>idx\<close> (counted from 0) is placed in
  row-major order, at grid column \<open>idx mod 6\<close> and grid row \<open>idx div 6\<close>, with pixel
  origin \<open>(patch_st_h + (patch_width + patch_space) * column,
  patch_st_v + (patch_height + patch_space) * row)\<close>, and the image shown and written
  holds the colour of patch \<open>idx\<close> at every pixel of that rectangle; patch 0 is at the
  top left, and a larger ordinal lies in a lower row, or in the same row further right.
\<close>

theorem mosaic_is_row_major:
  assumes "24 \<le> length rgb"
  shows "\<exists>m singles.
           make_color_checker_image (default_config lib) rgb =
             (Imshow (reverse_channels m)
              # Imwrite (all_patch_file_str (cs_name (COLOR_SPACE (default_config lib)))
                           (OETF_TYPE (default_config lib)))
                  (get_16bit_img (default_config lib) (reverse_channels m))
              # singles, None) \<and>
           (\<forall>idx. 0 \<le> idx \<and> idx < 24 \<longrightarrow>
              mosaic_origin (default_config lib) idx =
                (patch_st_h (default_config lib)
                   + (patch_width (default_config lib) + patch_space (default_config lib))
                     * (idx mod 6),
                 patch_st_v (default_config lib)
                   + (patch_height (default_config lib) + patch_space (default_config lib))
                     * (idx div 6)) \<and>
              mosaic_origin (default_config lib) idx =
                (226 + 250 * (idx mod 6), 51 + 250 * (idx div 6)) \<and>
              (\<forall>y x. snd (mosaic_origin (default_config lib) idx) \<le> y \<and>
                     y < snd (mosaic_origin (default_config lib) idx)
                           + patch_height (default_config lib) \<and>
                     fst (mosaic_origin (default_config lib) idx) \<le> x \<and>
                     x < fst (mosaic_origin (default_config lib) idx)
                           + patch_width (default_config lib)
                     \<longrightarrow> c_px m y x = rgb ! nat idx)) \<and>
           mosaic_origin (default_config lib) 0 =
             (patch_st_h (default_config lib), patch_st_v (default_config lib)) \<and>
           (\<forall>i j. 0 \<le> i \<and> i < j \<and> j < 24 \<longrightarrow>
              snd (mosaic_origin (default_config lib) i) < snd (mosaic_origin (default_config lib) j) \<or>
              (snd (mosaic_origin (default_config lib) i) = snd (mosaic_origin (default_config lib) j) \<and>
               fst (mosaic_origin (default_config lib) i) < fst (mosaic_origin (default_config lib) j)))"
proof -
  let ?cfg = "default_config lib"
  have ref: "reference_layout ?cfg" by simp
  from make_color_checker_image_ref [OF ref assms] obtain m where
    run: "make_color_checker_image ?cfg rgb =
           (Imshow (reverse_channels m)
            # Imwrite (all_patch_file_str (cs_name (COLOR_SPACE ?cfg)) (OETF_TYPE ?cfg))
                (get_16bit_img ?cfg (reverse_channels m))
            # map (\<lambda>idx. Imwrite
                       (measure_file_str (cs_name (COLOR_SPACE ?cfg)) (OETF_TYPE ?cfg) (idx + 1)
                          (COLOR_CHECKER_EACH_NAME ! nat idx))
                       (get_16bit_img ?cfg (reverse_channels
                          \<lparr> c_rows = 1080, c_cols = 1920,
                            c_px = (\<lambda>y x. if in_each_rect ?cfg y x then rgb ! nat idx
                                          else (0, 0, 0)) \<rparr>)))
                (py_range (h_num * v_num)),
            None)"
    and p: "\<And>j y x. 0 \<le> j \<and> j < 24 \<and> in_mosaic_rect ?cfg j y x \<Longrightarrow> c_px m y x = rgb ! nat j"
    by blast
  have o: "mosaic_origin ?cfg idx = (226 + 250 * (idx mod 6), 51 + 250 * (idx div 6))" for idx
    by (rule mosaic_origin_ref [OF ref])
  have a: "mosaic_origin ?cfg idx =
             (patch_st_h ?cfg + (patch_width ?cfg + patch_space ?cfg) * (idx mod 6),
              patch_st_v ?cfg + (patch_height ?cfg + patch_space ?cfg) * (idx div 6))" for idx
    by (simp add: o layout_ref [OF ref])
  have px: "c_px m y x = rgb ! nat idx"
    if "0 \<le> idx \<and> idx < 24"
      and "snd (mosaic_origin ?cfg idx) \<le> y \<and>
           y < snd (mosaic_origin ?cfg idx) + patch_height ?cfg \<and>
           fst (mosaic_origin ?cfg idx) \<le> x \<and>
           x < fst (mosaic_origin ?cfg idx) + patch_width ?cfg" for idx y x
  proof -
    have "in_mosaic_rect ?cfg idx y x"
      using that(2) by (simp add: in_mosaic_rect_def split_beta)
    then show ?thesis using p that(1) by blast
  qed
  have z: "mosaic_origin ?cfg 0 = (patch_st_h ?cfg, patch_st_v ?cfg)"
    by (simp add: o layout_ref [OF ref])
  have ord: "snd (mosaic_origin ?cfg i) < snd (mosaic_origin ?cfg j) \<or>
              (snd (mosaic_origin ?cfg i) = snd (mosaic_origin ?cfg j) \<and>
               fst (mosaic_origin ?cfg i) < fst (mosaic_origin ?cfg j))"
    if "0 \<le> i \<and> i < j \<and> j < 24" for i j
    using row_major_order [of i j] that by (auto simp: o)
  show ?thesis
    using run a o px z ord by blast
qed

theorem mosaic_is_row_major_witness:
  "24 \<le> length demo_rgb \<and>
   mosaic_origin (default_config demo_lib) 7 = (476, 301) \<and>
   (\<exists>m rest. make_color_checker_image (default_config demo_lib) demo_rgb =
                (Imshow (reverse_channels m) # rest, None) \<and>
              c_px m 301 476 = demo_rgb ! 7 \<and> c_px m 540 715 = demo_rgb ! 7)"
proof -
  have l: "24 \<le> length demo_rgb" by (simp add: length_demo_rgb)
  from mosaic_is_row_major [OF l, of demo_lib] obtain m singles where
    run: "make_color_checker_image (default_config demo_lib) demo_rgb =
             (Imshow (reverse_channels m)
              # Imwrite (all_patch_file_str (cs_name (COLOR_SPACE (default_config demo_lib)))
                           (OETF_TYPE (default_config demo_lib)))
                  (get_16bit_img (default_config demo_lib) (reverse_channels m))
              # singles, None)"
    and at: "\<And>idx. 0 \<le> idx \<and> idx < 24 \<Longrightarrow>
              mosaic_origin (default_config demo_lib) idx =
                (226 + 250 * (idx mod 6), 51 + 250 * (idx div 6)) \<and>
              (\<forall>y x. snd (mosaic_origin (default_config demo_lib) idx) \<le> y \<and>
                     y < snd (mosaic_origin (default_config demo_lib) idx)
                           + patch_height (default_config demo_lib) \<and>
                     fst (mosaic_origin (default_config demo_lib) idx) \<le> x \<and>
                     x < fst (mosaic_origin (default_config demo_lib) idx)
                           + patch_width (default_config demo_lib)
                     \<longrightarrow> c_px m y x = demo_rgb ! nat idx)"
    by blast
  have o: "mosaic_origin (default_config demo_lib) 7 = (476, 301)"
    using at [of 7] by simp
  have w: "patch_height (default_config demo_lib) = 240" "patch_width (default_config demo_lib) = 240"
    by (simp_all add: layout_ref)
  have "c_px m 301 476 = demo_rgb ! 7" "c_px m 540 715 = demo_rgb ! 7"
    using at [of 7] by (simp_all add: o w)
  then show ?thesis using l o run by blast
qed


text \<open>
  C2, evaluated on the code: with the constants of the source (canvas 1920 by 1080,
  patch size \<open>1 / 4.5\<close>, padding \<open>0.01\<close>, grid 6 by 4) the start offsets are 226 and 51,
  the 24 rectangles of the mosaic span columns 226 to 1716 and rows 51 to 1041, and the
  centre of that box is \<open>(971, 546)\<close>, while the centre of the canvas is \<open>(960, 540)\<close>:
  the box is 11 pixels right of and 6 pixels below the centre.
\<close>

theorem mosaic_bounding_box_off_centre:
  "patch_st_h (default_config lib) = 226 \<and> patch_st_v (default_config lib) = 51 \<and>
   bounding_box (mosaic_rects (default_config lib)) = Some (226, 51, 1716, 1041) \<and>
   map_option box_centre (bounding_box (mosaic_rects (default_config lib))) = Some (971, 546) \<and>
   canvas_centre (default_config lib) = (960, 540)"
  by (simp add: bounding_box_ref layout_ref box_centre_def canvas_centre_def)

section \<open>The single-patch images\<close>

text \<open>
  C8: all 24 single-patch images use one rectangle, a square of side
  \<open>int(0.15 * width)\<close>, which is 288, with origin
  \<open>(width // 2 - side // 2, height // 2 - side // 2)\<close>, which is \<open>(816, 396)\<close> and leaves
  equal margins on both sides; the image written for patch \<open>idx\<close> has the size of the
  canvas, holds the quantised colour of that patch (channels reversed for the file) at
  every pixel of the rectangle, and is zero at every other pixel.
\<close>

theorem single_patch_images_share_one_rectangle:
  assumes "24 \<le> length rgb"
  shows "each_patch_width (default_config lib)
           = py_int (of_int (IMG_WIDTH (default_config lib)) * (15 / 100)) \<and>
         each_patch_width (default_config lib) = 288 \<and>
         each_patch_height (default_config lib) = each_patch_width (default_config lib) \<and>
         each_st_h (default_config lib)
           = IMG_WIDTH (default_config lib) div 2 - each_patch_width (default_config lib) div 2 \<and>
         each_st_v (default_config lib)
           = IMG_HEIGHT (default_config lib) div 2 - each_patch_height (default_config lib) div 2 \<and>
         each_st_h (default_config lib) = 816 \<and> each_st_v (default_config lib) = 396 \<and>
         2 * each_st_h (default_config lib) + each_patch_width (default_config lib)
           = IMG_WIDTH (default_config lib) \<and>
         2 * each_st_v (default_config lib) + each_patch_height (default_config lib)
           = IMG_HEIGHT (default_config lib) \<and>
         (\<exists>e1 e2 singles.
            make_color_checker_image (default_config lib) rgb = (e1 # e2 # singles, None) \<and>
            length singles = 24 \<and>
            (\<forall>idx < 24. \<exists>name img.
               singles ! idx = Imwrite name img \<and>
               c_rows img = IMG_HEIGHT (default_config lib) \<and>
               c_cols img = IMG_WIDTH (default_config lib) \<and>
               (\<forall>y x. c_px img y x =
                  (if each_st_v (default_config lib) \<le> y \<and>
                      y < each_st_v (default_config lib) + each_patch_height (default_config lib) \<and>
                      each_st_h (default_config lib) \<le> x \<and>
                      x < each_st_h (default_config lib) + each_patch_width (default_config lib)
                   then (case rgb ! idx of
                           (r, g, b) \<Rightarrow>
                             (get_16bit_value (default_config lib) b,
                              get_16bit_value (default_config lib) g,
                              get_16bit_value (default_config lib) r))
                   else (0, 0, 0)))))"
proof -
  let ?cfg = "default_config lib"
  have ref: "reference_layout ?cfg" by simp
  note lay = layout_ref [OF ref]
  define single where
    "single idx = get_16bit_img ?cfg (reverse_channels
                    \<lparr> c_rows = 1080, c_cols = 1920,
                      c_px = (\<lambda>y x. if in_each_rect ?cfg y x then rgb ! nat idx
                                    else (0, 0, 0)) \<rparr>)" for idx
  define fname where
    "fname idx = measure_file_str (cs_name (COLOR_SPACE ?cfg)) (OETF_TYPE ?cfg) (idx + 1)
                   (COLOR_CHECKER_EACH_NAME ! nat idx)" for idx
  define singles where
    "singles = map (\<lambda>idx. Imwrite (fname idx) (single idx)) (py_range (h_num * v_num))"
  from make_color_checker_image_ref [OF ref assms] obtain m where
    "make_color_checker_image ?cfg rgb =
       (Imshow (reverse_channels m)
        # Imwrite (all_patch_file_str (cs_name (COLOR_SPACE ?cfg)) (OETF_TYPE ?cfg))
            (get_16bit_img ?cfg (reverse_channels m))
        # singles, None)"
    unfolding singles_def single_def fname_def by blast
  then have run: "\<exists>e1 e2. make_color_checker_image ?cfg rgb = (e1 # e2 # singles, None)"
    by blast
  have len: "length singles = 24"
    by (simp add: singles_def length_py_range_grid)
  have each: "\<exists>name img.
               singles ! idx = Imwrite name img \<and>
               c_rows img = IMG_HEIGHT ?cfg \<and> c_cols img = IMG_WIDTH ?cfg \<and>
               (\<forall>y x. c_px img y x =
                  (if each_st_v ?cfg \<le> y \<and> y < each_st_v ?cfg + each_patch_height ?cfg \<and>
                      each_st_h ?cfg \<le> x \<and> x < each_st_h ?cfg + each_patch_width ?cfg
                   then (case rgb ! idx of
                           (r, g, b) \<Rightarrow>
                             (get_16bit_value ?cfg b, get_16bit_value ?cfg g,
                              get_16bit_value ?cfg r))
                   else (0, 0, 0)))" if "idx < 24" for idx
  proof -
    have n: "singles ! idx = Imwrite (fname (int idx)) (single (int idx))"
      using that by (simp add: singles_def length_py_range_grid py_range_grid_nth)
    have s: "c_rows (single (int idx)) = IMG_HEIGHT ?cfg" "c_cols (single (int idx)) = IMG_WIDTH ?cfg"
      by (simp_all add: single_def get_16bit_img_def reverse_channels_def map_canvas_def lay)
    have p: "c_px (single (int idx)) y x =
                  (if each_st_v ?cfg \<le> y \<and> y < each_st_v ?cfg + each_patch_height ?cfg \<and>
                      each_st_h ?cfg \<le> x \<and> x < each_st_h ?cfg + each_patch_width ?cfg
                   then (case rgb ! idx of
                           (r, g, b) \<Rightarrow>
                             (get_16bit_value ?cfg b, get_16bit_value ?cfg g,
                              get_16bit_value ?cfg r))
                   else (0, 0, 0))" for y x
      by (simp add: single_def get_16bit_img_def reverse_channels_def map_canvas_def
          in_each_rect_def get_16bit_value_zero split_beta)
    show ?thesis using n s p by blast
  qed
  have geo: "each_patch_width ?cfg = py_int (of_int (IMG_WIDTH ?cfg) * (15 / 100))"
    "each_patch_width ?cfg = 288" "each_patch_height ?cfg = each_patch_width ?cfg"
    "each_st_h ?cfg = IMG_WIDTH ?cfg div 2 - each_patch_width ?cfg div 2"
    "each_st_v ?cfg = IMG_HEIGHT ?cfg div 2 - each_patch_height ?cfg div 2"
    "each_st_h ?cfg = 816" "each_st_v ?cfg = 396"
    "2 * each_st_h ?cfg + each_patch_width ?cfg = IMG_WIDTH ?cfg"
    "2 * each_st_v ?cfg + each_patch_height ?cfg = IMG_HEIGHT ?cfg"
    by (simp_all add: lay py_int_def)
  show ?thesis
    using geo run len each by blast
qed


theorem single_patch_images_share_one_rectangle_witness:
  "24 \<le> length demo_rgb \<and>
   (\<exists>e1 e2 singles name img.
      make_color_checker_image (default_config demo_lib) demo_rgb = (e1 # e2 # singles, None) \<and>
      singles ! 7 = Imwrite name img \<and>
      c_px img 540 960 = (65535, 32768, 19114) \<and>
      c_px img 0 0 = (0, 0, 0))"
proof -
  have l: "24 \<le> length demo_rgb" by (simp add: length_demo_rgb)
  from single_patch_images_share_one_rectangle [OF l, of demo_lib] obtain e1 e2 singles where
    run: "make_color_checker_image (default_config demo_lib) demo_rgb = (e1 # e2 # singles, None)"
    and each: "\<forall>idx < 24. \<exists>name img.
               singles ! idx = Imwrite name img \<and>
               c_rows img = IMG_HEIGHT (default_config demo_lib) \<and>
               c_cols img = IMG_WIDTH (default_config demo_lib) \<and>
               (\<forall>y x. c_px img y x =
                  (if each_st_v (default_config demo_lib) \<le> y \<and>
                      y < each_st_v (default_config demo_lib) + each_patch_height (default_config demo_lib) \<and>
                      each_st_h (default_config demo_lib) \<le> x \<and>
                      x < each_st_h (default_config demo_lib) + each_patch_width (default_config demo_lib)
                   then (case demo_rgb ! idx of
                           (r, g, b) \<Rightarrow>
                             (get_16bit_value (default_config demo_lib) b,
                              get_16bit_value (default_config demo_lib) g,
                              get_16bit_value (default_config demo_lib) r))
                   else (0, 0, 0)))"
    by blast
  have "(7 :: nat) < 24" by simp
  from each [rule_format, OF this] obtain name img where
    s: "singles ! 7 = Imwrite name img"
    and p: "\<And>y x. c_px img y x =
                  (if each_st_v (default_config demo_lib) \<le> y \<and>
                      y < each_st_v (default_config demo_lib) + each_patch_height (default_config demo_lib) \<and>
                      each_st_h (default_config demo_lib) \<le> x \<and>
                      x < each_st_h (default_config demo_lib) + each_patch_width (default_config demo_lib)
                   then (case demo_rgb ! 7 of
                           (r, g, b) \<Rightarrow>
                             (get_16bit_value (default_config demo_lib) b,
                              get_16bit_value (default_config demo_lib) g,
                              get_16bit_value (default_config demo_lib) r))
                   else (0, 0, 0))"
    by blast
  have d: "demo_rgb ! 7 = (7 / 24, 1 / 2, 1)"
    by (simp add: demo_rgb_def upt_24)
  have q: "get_16bit_value (default_config demo_lib) (7 / 24) = 19114"
    by (rule get_16bit_value_examples)
  have "c_px img 540 960 = (65535, 32768, 19114)" "c_px img 0 0 = (0, 0, 0)"
    by (simp_all add: p layout_ref d q get_16bit_value_examples)
  then show ?thesis using l run s by blast
qed


section \<open>The two transfer-function families\<close>

text \<open>
  C1: the two families are distinct encode operations. For the family \<open>HLG\<close>, which
  is the one the source configures, the encoder is the reverse HLG EOTF, the HLG OETF
  applied after the inverse of the display OOTF; for the family \<open>ST2084\<close> it is the PQ
  curve alone. With the two library entries being the curves of ITU-R BT.2100, the
  input 0.5 is scaled to 50 cd/m2 and the HLG encoder returns the OETF of the scene
  light \<open>(1/20) powr (5/6)\<close>, a value between 0.49 and 0.5, while the PQ encoder returns
  a value below 0.47: the two outputs differ. The HLG output also differs from the HLG
  OETF without OOTF on the same scaled input, which is above 0.5, and on that input
  normalised by the peak of 1000 cd/m2, which is at most 0.4.
\<close>

theorem hlg_and_pq_encoders_are_distinct:
  fixes lib :: "real colour_lib"
  assumes "eotf_reverse_BT2100_HLG lib = ref_eotf_reverse_BT2100_HLG"
    and "oetf_ST2084 lib = ref_oetf_ST2084"
  shows "OETF_FUNC lib (default_config lib) = Some ref_eotf_reverse_BT2100_HLG
       \<and> OETF_FUNC lib (default_config lib\<lparr>OETF_TYPE := ''HLG''\<rparr>)
           = Some ref_eotf_reverse_BT2100_HLG
       \<and> OETF_FUNC lib (default_config lib\<lparr>OETF_TYPE := ''ST2084''\<rparr>) = Some ref_oetf_ST2084
       \<and> get_rgb_with_prime (default_config lib) [(1 / 2, 1 / 2, 1 / 2)]
             (OETF_FUNC lib (default_config lib))
           = Inr [(ref_oetf_BT2100_HLG ((1 / 20) powr (5 / 6)),
                   ref_oetf_BT2100_HLG ((1 / 20) powr (5 / 6)),
                   ref_oetf_BT2100_HLG ((1 / 20) powr (5 / 6)))]
       \<and> get_rgb_with_prime (default_config lib\<lparr>OETF_TYPE := ''ST2084''\<rparr>)
             [(1 / 2, 1 / 2, 1 / 2)]
             (OETF_FUNC lib (default_config lib\<lparr>OETF_TYPE := ''ST2084''\<rparr>))
           = Inr [(ref_oetf_ST2084_value 50, ref_oetf_ST2084_value 50,
                   ref_oetf_ST2084_value 50)]
       \<and> 49 / 100 \<le> ref_oetf_BT2100_HLG ((1 / 20) powr (5 / 6))
       \<and> ref_oetf_BT2100_HLG ((1 / 20) powr (5 / 6)) \<le> 1 / 2
       \<and> ref_oetf_ST2084_value 50 < 47 / 100
       \<and> 1 / 2 < ref_oetf_BT2100_HLG 50
       \<and> ref_oetf_BT2100_HLG (50 / 1000) \<le> 40 / 100
       \<and> get_rgb_with_prime (default_config lib) [(1 / 2, 1 / 2, 1 / 2)]
             (OETF_FUNC lib (default_config lib))
           \<noteq> get_rgb_with_prime (default_config lib\<lparr>OETF_TYPE := ''ST2084''\<rparr>)
               [(1 / 2, 1 / 2, 1 / 2)]
               (OETF_FUNC lib (default_config lib\<lparr>OETF_TYPE := ''ST2084''\<rparr>))
       \<and> get_rgb_with_prime (default_config lib) [(1 / 2, 1 / 2, 1 / 2)]
             (OETF_FUNC lib (default_config lib))
           \<noteq> Inr [(ref_oetf_BT2100_HLG 50, ref_oetf_BT2100_HLG 50, ref_oetf_BT2100_HLG 50)]
       \<and> get_rgb_with_prime (default_config lib) [(1 / 2, 1 / 2, 1 / 2)]
             (OETF_FUNC lib (default_config lib))
           \<noteq> Inr [(ref_oetf_BT2100_HLG (50 / 1000), ref_oetf_BT2100_HLG (50 / 1000),
                    ref_oetf_BT2100_HLG (50 / 1000))]"
proof -
  let ?h = "ref_oetf_BT2100_HLG ((1 / 20) powr (5 / 6))"
  let ?p = "ref_oetf_ST2084_value 50"
  let ?pq = "default_config lib\<lparr>OETF_TYPE := ''ST2084''\<rparr>"
  have f1: "OETF_FUNC lib (default_config lib) = Some ref_eotf_reverse_BT2100_HLG"
    using assms(1) by (simp add: OETF_FUNC_def default_config_def)
  have f2: "OETF_FUNC lib (default_config lib\<lparr>OETF_TYPE := ''HLG''\<rparr>)
              = Some ref_eotf_reverse_BT2100_HLG"
    using assms(1) by (simp add: OETF_FUNC_def)
  have f3: "OETF_FUNC lib ?pq = Some ref_oetf_ST2084"
    using assms(2) by (simp add: OETF_FUNC_def)
  have t1: "TARGET_BRIGHTNESS (default_config lib) = 100"
    by (simp add: default_config_def)
  have t2: "TARGET_BRIGHTNESS ?pq = 100"
    by (simp add: default_config_def)
  have e1: "get_rgb_with_prime (default_config lib) [(1 / 2, 1 / 2, 1 / 2)]
              (OETF_FUNC lib (default_config lib)) = Inr [(?h, ?h, ?h)]"
    unfolding f1 get_rgb_with_prime_def t1
    by (simp only: Let_def list.map scale_half_real option.case hlg_encoded_half)
  have e2: "get_rgb_with_prime ?pq [(1 / 2, 1 / 2, 1 / 2)] (OETF_FUNC lib ?pq)
              = Inr [(?p, ?p, ?p)]"
    unfolding f3 get_rgb_with_prime_def t2
    by (simp only: Let_def list.map scale_half_real option.case pq_encoded_half)
  have h1: "49 / 100 \<le> ?h" and h2: "?h \<le> 1 / 2"
    using hlg_value_bounds by simp_all
  have p1: "?p < 47 / 100" by (rule pq_value_bound)
  have g1: "1 / 2 < ref_oetf_BT2100_HLG 50" by (rule plain_hlg_value_bound)
  have n0: "(50 / 1000 :: real) = 1 / 20" by simp
  have g2: "ref_oetf_BT2100_HLG (50 / 1000) \<le> 40 / 100"
    unfolding n0 by (rule plain_hlg_normalised_bound)
  have d1: "?h \<noteq> ?p" using h1 p1 by linarith
  have d2: "?h \<noteq> ref_oetf_BT2100_HLG 50" using h2 g1 by linarith
  have d3: "?h \<noteq> ref_oetf_BT2100_HLG (50 / 1000)" using h1 g2 by linarith
  have c1: "Inr [(?h, ?h, ?h)] \<noteq> (Inr [(?p, ?p, ?p)] :: py_error + (real \<times> real \<times> real) list)"
    using d1 by simp
  have c2: "Inr [(?h, ?h, ?h)]
              \<noteq> (Inr [(ref_oetf_BT2100_HLG 50, ref_oetf_BT2100_HLG 50, ref_oetf_BT2100_HLG 50)]
                   :: py_error + (real \<times> real \<times> real) list)"
    using d2 by simp
  have c3: "Inr [(?h, ?h, ?h)]
              \<noteq> (Inr [(ref_oetf_BT2100_HLG (50 / 1000), ref_oetf_BT2100_HLG (50 / 1000),
                        ref_oetf_BT2100_HLG (50 / 1000))]
                   :: py_error + (real \<times> real \<times> real) list)"
    using d3 by simp
  show ?thesis
    unfolding e1 e2 using f1 f2 f3 h1 h2 p1 g1 g2 c1 c2 c3 by blast
qed

theorem hlg_and_pq_encoders_are_distinct_witness:
  "eotf_reverse_BT2100_HLG ref_lib = ref_eotf_reverse_BT2100_HLG
   \<and> oetf_ST2084 ref_lib = ref_oetf_ST2084
   \<and> OETF_FUNC ref_lib (default_config ref_lib) = Some ref_eotf_reverse_BT2100_HLG
   \<and> OETF_FUNC ref_lib (default_config ref_lib\<lparr>OETF_TYPE := ''ST2084''\<rparr>)
       = Some ref_oetf_ST2084
   \<and> get_rgb_with_prime (default_config ref_lib) [(1 / 2, 1 / 2, 1 / 2)]
         (OETF_FUNC ref_lib (default_config ref_lib))
       = Inr [(ref_oetf_BT2100_HLG ((1 / 20) powr (5 / 6)),
               ref_oetf_BT2100_HLG ((1 / 20) powr (5 / 6)),
               ref_oetf_BT2100_HLG ((1 / 20) powr (5 / 6)))]
   \<and> get_rgb_with_prime (default_config ref_lib\<lparr>OETF_TYPE := ''ST2084''\<rparr>)
         [(1 / 2, 1 / 2, 1 / 2)]
         (OETF_FUNC ref_lib (default_config ref_lib\<lparr>OETF_TYPE := ''ST2084''\<rparr>))
       = Inr [(ref_oetf_ST2084_value 50, ref_oetf_ST2084_value 50,
               ref_oetf_ST2084_value 50)]
   \<and> 49 / 100 \<le> ref_oetf_BT2100_HLG ((1 / 20) powr (5 / 6))
   \<and> ref_oetf_ST2084_value 50 < 47 / 100
   \<and> 1 / 2 < ref_oetf_BT2100_HLG 50"
proof -
  have a: "eotf_reverse_BT2100_HLG ref_lib = ref_eotf_reverse_BT2100_HLG"
    by (simp add: ref_lib_def)
  have b: "oetf_ST2084 ref_lib = ref_oetf_ST2084"
    by (simp add: ref_lib_def)
  show ?thesis
    using hlg_and_pq_encoders_are_distinct [OF a b] a b by blast
qed

section \<open>An unknown transfer-function name\<close>

text \<open>
  C3 as stated does not hold: with the name \<open>PQ\<close>, which is neither \<open>HLG\<close> nor
  \<open>ST2084\<close>, the run has loaded the chart and converted all 24 patches to linear RGB
  when the error is raised, so it is not the case that the run fails with nothing
  computed.
\<close>

theorem unknown_oetf_not_detected_before_processing:
  "OETF_TYPE (default_config demo_lib \<lparr> OETF_TYPE := ''PQ'' \<rparr>) \<noteq> ''HLG'' \<and>
   OETF_TYPE (default_config demo_lib \<lparr> OETF_TYPE := ''PQ'' \<rparr>) \<noteq> ''ST2084'' \<and>
   map_option length (run_large_xyz (main_func demo_lib (default_config demo_lib \<lparr> OETF_TYPE := ''PQ'' \<rparr>)))
     = Some 24 \<and>
   map_option length (run_rgb (main_func demo_lib (default_config demo_lib \<lparr> OETF_TYPE := ''PQ'' \<rparr>)))
     = Some 24 \<and>
   \<not> (run_error (main_func demo_lib (default_config demo_lib \<lparr> OETF_TYPE := ''PQ'' \<rparr>)) \<noteq> None \<and>
      run_large_xyz (main_func demo_lib (default_config demo_lib \<lparr> OETF_TYPE := ''PQ'' \<rparr>)) = None \<and>
      run_rgb (main_func demo_lib (default_config demo_lib \<lparr> OETF_TYPE := ''PQ'' \<rparr>)) = None \<and>
      run_effects (main_func demo_lib (default_config demo_lib \<lparr> OETF_TYPE := ''PQ'' \<rparr>)) = [])"
proof -
  let ?cfg = "default_config demo_lib \<lparr> OETF_TYPE := ''PQ'' \<rparr>"
  have n: "OETF_FUNC demo_lib ?cfg = None" by (simp add: OETF_FUNC_def)
  show ?thesis
    by (simp add: main_func_not_callable [OF demo_chart_found n] length_demo_data)
qed


text \<open>
  C3, amended: if the transfer-function name is neither \<open>HLG\<close> nor \<open>ST2084\<close>, loading
  the module raises nothing and binds \<open>OETF_FUNC\<close> to \<open>None\<close>; the run ends with an
  error, with no encoded values, and with no preview and no file requested; and when
  the chart is found, the error is the \<open>TypeError\<close> of calling \<open>None\<close> in the encoder,
  raised after the chart has been loaded and every patch converted to linear RGB.
\<close>

theorem unknown_oetf_fails_in_encoder:
  assumes "OETF_TYPE cfg \<noteq> ''HLG''" "OETF_TYPE cfg \<noteq> ''ST2084''"
  shows "OETF_FUNC lib cfg = None \<and>
         run_error (main_func lib cfg) \<noteq> None \<and>
         run_rgb_prime (main_func lib cfg) = None \<and>
         run_effects (main_func lib cfg) = [] \<and>
         (\<forall>name data wp.
            COLOURCHECKERS lib (COLOR_CHECKER_NAME cfg) = Some (name, data, wp) \<longrightarrow>
            main_func lib cfg =
              \<lparr> run_large_xyz =
                  Some (map (xyY_to_XYZ lib) (map (\<lambda>(index, label, xyY). xyY) data)),
                run_illuminant = Some wp,
                run_rgb = Some (get_linear_rgb_from_large_xyz lib cfg
                           (map (xyY_to_XYZ lib) (map (\<lambda>(index, label, xyY). xyY) data)) wp
                           (COLOR_SPACE cfg)),
                run_rgb_prime = None,
                run_effects = [],
                run_error = Some (TypeError ''NoneType object is not callable'') \<rparr> \<and>
            length (get_linear_rgb_from_large_xyz lib cfg
                      (map (xyY_to_XYZ lib) (map (\<lambda>(index, label, xyY). xyY) data)) wp
                      (COLOR_SPACE cfg)) = length data)"
proof -
  have n: "OETF_FUNC lib cfg = None"
    using assms by (rule OETF_FUNC_unknown)
  have c: "main_func lib cfg =
              \<lparr> run_large_xyz =
                  Some (map (xyY_to_XYZ lib) (map (\<lambda>(index, label, xyY). xyY) data)),
                run_illuminant = Some wp,
                run_rgb = Some (get_linear_rgb_from_large_xyz lib cfg
                           (map (xyY_to_XYZ lib) (map (\<lambda>(index, label, xyY). xyY) data)) wp
                           (COLOR_SPACE cfg)),
                run_rgb_prime = None,
                run_effects = [],
                run_error = Some (TypeError ''NoneType object is not callable'') \<rparr> \<and>
            length (get_linear_rgb_from_large_xyz lib cfg
                      (map (xyY_to_XYZ lib) (map (\<lambda>(index, label, xyY). xyY) data)) wp
                      (COLOR_SPACE cfg)) = length data"
    if "COLOURCHECKERS lib (COLOR_CHECKER_NAME cfg) = Some (name, data, wp)" for name data wp
    using main_func_not_callable [OF that n] by simp
  have "run_error (main_func lib cfg) \<noteq> None \<and> run_rgb_prime (main_func lib cfg) = None \<and>
        run_effects (main_func lib cfg) = []"
  proof (cases "COLOURCHECKERS lib (COLOR_CHECKER_NAME cfg)")
    case None
    then show ?thesis by (simp add: main_func_no_chart)
  next
    case (Some ch)
    then obtain name data wp where "COLOURCHECKERS lib (COLOR_CHECKER_NAME cfg) = Some (name, data, wp)"
      by (cases ch) auto
    then show ?thesis by (simp add: main_func_not_callable [OF _ n])
  qed
  then show ?thesis using n c by blast
qed

theorem unknown_oetf_fails_in_encoder_witness:
  "OETF_TYPE (default_config demo_lib \<lparr> OETF_TYPE := ''PQ'' \<rparr>) \<noteq> ''HLG'' \<and>
   OETF_TYPE (default_config demo_lib \<lparr> OETF_TYPE := ''PQ'' \<rparr>) \<noteq> ''ST2084'' \<and>
   COLOURCHECKERS demo_lib (COLOR_CHECKER_NAME (default_config demo_lib \<lparr> OETF_TYPE := ''PQ'' \<rparr>)) =
     Some (''ColorChecker 2005'', demo_data, (3457 / 10000, 3585 / 10000)) \<and>
   OETF_FUNC demo_lib (default_config demo_lib \<lparr> OETF_TYPE := ''PQ'' \<rparr>) = None \<and>
   run_effects (main_func demo_lib (default_config demo_lib \<lparr> OETF_TYPE := ''PQ'' \<rparr>)) = [] \<and>
   run_error (main_func demo_lib (default_config demo_lib \<lparr> OETF_TYPE := ''PQ'' \<rparr>)) =
     Some (TypeError ''NoneType object is not callable'') \<and>
   map_option length (run_rgb (main_func demo_lib (default_config demo_lib \<lparr> OETF_TYPE := ''PQ'' \<rparr>)))
     = Some 24"
proof -
  let ?cfg = "default_config demo_lib \<lparr> OETF_TYPE := ''PQ'' \<rparr>"
  have h: "OETF_TYPE ?cfg \<noteq> ''HLG''" "OETF_TYPE ?cfg \<noteq> ''ST2084''" by simp_all
  note t = unknown_oetf_fails_in_encoder [OF h, of demo_lib]
  have c: "COLOURCHECKERS demo_lib (COLOR_CHECKER_NAME ?cfg) =
             Some (''ColorChecker 2005'', demo_data, (3457 / 10000, 3585 / 10000))"
    by (rule demo_chart_found)
  from t c have m: "main_func demo_lib ?cfg =
              \<lparr> run_large_xyz =
                  Some (map (xyY_to_XYZ demo_lib) (map (\<lambda>(index, label, xyY). xyY) demo_data)),
                run_illuminant = Some (3457 / 10000, 3585 / 10000),
                run_rgb = Some (get_linear_rgb_from_large_xyz demo_lib ?cfg
                           (map (xyY_to_XYZ demo_lib) (map (\<lambda>(index, label, xyY). xyY) demo_data))
                           (3457 / 10000, 3585 / 10000) (COLOR_SPACE ?cfg)),
                run_rgb_prime = None,
                run_effects = [],
                run_error = Some (TypeError ''NoneType object is not callable'') \<rparr>"
    by blast
  have "map_option length (run_rgb (main_func demo_lib ?cfg)) = Some 24"
    "run_error (main_func demo_lib ?cfg) = Some (TypeError ''NoneType object is not callable'')"
    by (simp_all add: m length_demo_data)
  then show ?thesis using h c t by blast
qed


section \<open>Conversion and encoding\<close>

text \<open>
  C6: the encoder multiplies every component of every linear RGB triple by the target
  brightness, which is 100 in the source, and applies the transfer function to the
  scaled triple: the output for an input \<open>x\<close> is \<open>OETF(x * TARGET_BRIGHTNESS)\<close>.
  Neither the scaled nor the encoded values are clamped: with the identity as transfer
  function, \<open>(-0.5, 0.5, 2)\<close> comes out as \<open>(-50, 50, 200)\<close>. The scaling comes first:
  with squaring as transfer function, 0.5 comes out as 2500, the square of 50, not as
  25, which is 100 times the square of 0.5.
\<close>

theorem brightness_scaling_precedes_oetf:
  "get_rgb_with_prime cfg rgb (Some oetf) =
     Inr (map (\<lambda>(r, g, b). oetf (r * of_int (TARGET_BRIGHTNESS cfg),
                                 g * of_int (TARGET_BRIGHTNESS cfg),
                                 b * of_int (TARGET_BRIGHTNESS cfg))) rgb) \<and>
   TARGET_BRIGHTNESS (default_config lib) = 100 \<and>
   get_rgb_with_prime (default_config lib) [(- 1 / 2, 1 / 2, 2) :: vec3] (Some (\<lambda>v. v)) =
     Inr [(- 50, 50, 200)] \<and>
   get_rgb_with_prime (default_config lib) [(1 / 2, 1 / 2, 1 / 2) :: vec3]
       (Some (\<lambda>(r, g, b). (r * r, g * g, b * b))) =
     Inr [(2500, 2500, 2500)]"
  by (simp add: get_rgb_with_prime_def scale_rgb_def default_config_def split_beta)

text \<open>
  C7: the linear RGB triples are exactly what the library's \<open>XYZ_to_RGB\<close> returns for
  each patch, with no clamp added, and \<open>main_func\<close> hands these triples to the encoder
  as they are: the encoded values are the transfer function of the scaled library
  output. A component that the library returns negative or above 1 stays so.
\<close>

theorem linear_rgb_is_handed_over_unclamped:
  "get_linear_rgb_from_large_xyz lib cfg large_xyz wp cs =
     map (\<lambda>xyz. XYZ_to_RGB lib xyz wp (cs_whitepoint cs) (cs_XYZ_to_RGB_matrix cs)
                   (CHROMATIC_ADAPTATION_TRANSFORM cfg)) large_xyz \<and>
   (\<forall>name data w f.
      COLOURCHECKERS lib (COLOR_CHECKER_NAME cfg) = Some (name, data, w) \<and>
      OETF_FUNC lib cfg = Some f \<longrightarrow>
      run_rgb (main_func lib cfg) =
        Some (map (\<lambda>(index, label, xyY).
                     XYZ_to_RGB lib (xyY_to_XYZ lib xyY) w (cs_whitepoint (COLOR_SPACE cfg))
                       (cs_XYZ_to_RGB_matrix (COLOR_SPACE cfg))
                       (CHROMATIC_ADAPTATION_TRANSFORM cfg)) data) \<and>
      run_rgb_prime (main_func lib cfg) =
        Some (map (\<lambda>(index, label, xyY).
                     f (scale_rgb (TARGET_BRIGHTNESS cfg)
                          (XYZ_to_RGB lib (xyY_to_XYZ lib xyY) w (cs_whitepoint (COLOR_SPACE cfg))
                             (cs_XYZ_to_RGB_matrix (COLOR_SPACE cfg))
                             (CHROMATIC_ADAPTATION_TRANSFORM cfg)))) data))"
proof -
  have a: "get_linear_rgb_from_large_xyz lib cfg large_xyz wp cs =
     map (\<lambda>xyz. XYZ_to_RGB lib xyz wp (cs_whitepoint cs) (cs_XYZ_to_RGB_matrix cs)
                   (CHROMATIC_ADAPTATION_TRANSFORM cfg)) large_xyz" for large_xyz wp cs
    by (simp add: get_linear_rgb_from_large_xyz_def)
  have b: "run_rgb (main_func lib cfg) =
        Some (map (\<lambda>(index, label, xyY).
                     XYZ_to_RGB lib (xyY_to_XYZ lib xyY) w (cs_whitepoint (COLOR_SPACE cfg))
                       (cs_XYZ_to_RGB_matrix (COLOR_SPACE cfg))
                       (CHROMATIC_ADAPTATION_TRANSFORM cfg)) data) \<and>
      run_rgb_prime (main_func lib cfg) =
        Some (map (\<lambda>(index, label, xyY).
                     f (scale_rgb (TARGET_BRIGHTNESS cfg)
                          (XYZ_to_RGB lib (xyY_to_XYZ lib xyY) w (cs_whitepoint (COLOR_SPACE cfg))
                             (cs_XYZ_to_RGB_matrix (COLOR_SPACE cfg))
                             (CHROMATIC_ADAPTATION_TRANSFORM cfg)))) data)"
    if "COLOURCHECKERS lib (COLOR_CHECKER_NAME cfg) = Some (name, data, w) \<and>
        OETF_FUNC lib cfg = Some f" for name data w f
  proof -
    have m: "main_func lib cfg = \<lparr> run_large_xyz = Some (map (xyY_to_XYZ lib) (map (\<lambda>(index, label, xyY). xyY) data)),
             run_illuminant = Some w,
             run_rgb = Some (get_linear_rgb_from_large_xyz lib cfg
                        (map (xyY_to_XYZ lib) (map (\<lambda>(index, label, xyY). xyY) data)) w
                        (COLOR_SPACE cfg)),
             run_rgb_prime = Some (map f (map (scale_rgb (TARGET_BRIGHTNESS cfg))
                        (get_linear_rgb_from_large_xyz lib cfg
                           (map (xyY_to_XYZ lib) (map (\<lambda>(index, label, xyY). xyY) data)) w
                           (COLOR_SPACE cfg)))),
             run_effects = fst (make_color_checker_image cfg
                        (map f (map (scale_rgb (TARGET_BRIGHTNESS cfg))
                           (get_linear_rgb_from_large_xyz lib cfg
                              (map (xyY_to_XYZ lib) (map (\<lambda>(index, label, xyY). xyY) data)) w
                              (COLOR_SPACE cfg))))),
             run_error = snd (make_color_checker_image cfg
                        (map f (map (scale_rgb (TARGET_BRIGHTNESS cfg))
                           (get_linear_rgb_from_large_xyz lib cfg
                              (map (xyY_to_XYZ lib) (map (\<lambda>(index, label, xyY). xyY) data)) w
                              (COLOR_SPACE cfg))))) \<rparr>"
      using that by (intro main_func_encoded) simp_all
    show ?thesis
      by (simp add: m a comp_def split_beta)
  qed
  show ?thesis using a b by blast
qed

theorem linear_rgb_is_handed_over_unclamped_witness:
  "COLOURCHECKERS demo_lib (COLOR_CHECKER_NAME (default_config demo_lib)) =
     Some (''ColorChecker 2005'', demo_data, (3457 / 10000, 3585 / 10000)) \<and>
   OETF_FUNC demo_lib (default_config demo_lib) = Some (eotf_reverse_BT2100_HLG demo_lib) \<and>
   map_option (\<lambda>rgb. rgb ! 0) (run_rgb (main_func demo_lib (default_config demo_lib))) =
     Some (- (372147 / 12500000), 32143 / 500000, 178593 / 2500000) \<and>
   map_option (\<lambda>rgb. rgb ! 23) (run_rgb (main_func demo_lib (default_config demo_lib))) =
     Some (1480833 / 781250, 19959 / 31250, 38259 / 78125) \<and>
   map_option (\<lambda>rgb. rgb ! 0) (run_rgb_prime (main_func demo_lib (default_config demo_lib))) =
     Some (- (372147 / 125000000), 32143 / 5000000, 178593 / 25000000)"
proof -
  let ?cfg = "default_config demo_lib"
  have h: "COLOURCHECKERS demo_lib (COLOR_CHECKER_NAME ?cfg) =
             Some (''ColorChecker 2005'', demo_data, (3457 / 10000, 3585 / 10000)) \<and>
           OETF_FUNC demo_lib ?cfg = Some (eotf_reverse_BT2100_HLG demo_lib)"
    by (simp add: demo_chart_found_default demo_OETF_FUNC)
  note t = linear_rgb_is_handed_over_unclamped [of demo_lib ?cfg, THEN conjunct2, rule_format, OF h]
  have d: "demo_data ! 0 = (1, ''dark skin'', (1 / 50, 1 / 3, 1 / 25))"
    "demo_data ! 23 = (24, ''black 2'', (24 / 50, 1 / 3, 24 / 25))"
    by (simp_all add: demo_data_def COLOR_CHECKER_EACH_NAME_def)
  have "map_option (\<lambda>rgb. rgb ! 0) (run_rgb (main_func demo_lib ?cfg)) =
     Some (- (372147 / 12500000), 32143 / 500000, 178593 / 2500000)"
   "map_option (\<lambda>rgb. rgb ! 23) (run_rgb (main_func demo_lib ?cfg)) =
     Some (1480833 / 781250, 19959 / 31250, 38259 / 78125)"
   "map_option (\<lambda>rgb. rgb ! 0) (run_rgb_prime (main_func demo_lib ?cfg)) =
     Some (- (372147 / 125000000), 32143 / 5000000, 178593 / 25000000)"
    by (simp_all add: t length_demo_data d)
      (simp_all add: demo_lib_def default_config_def scale_rgb_def)
  then show ?thesis using h by blast
qed


section \<open>Counts in the reference configuration\<close>

text \<open>
  C9: in the reference configuration, with either transfer function, when the chart
  \<open>ColorChecker 2005\<close> of the library holds 24 rows, the run ends without error; the
  chart provider yields 24 values, the converter 24 linear triples and the encoder 24
  encoded triples, and 24 is the grid, 6 columns times 4 rows; the first loop paints 24
  distinct rectangles, rectangle \<open>idx\<close> with encoded patch \<open>idx\<close>, and leaves the rest
  of the mosaic zero; and after the preview and the mosaic file exactly 24 single-patch
  files follow, file \<open>i\<close> named by ordinal \<open>i + 1\<close> and the \<open>i\<close>-th patch name, and made
  from encoded patch \<open>i\<close>.
\<close>

theorem reference_run_counts:
  assumes "COLOURCHECKERS lib ''ColorChecker 2005'' = Some (name, data, wp)"
    and "length data = 24"
    and "t = ''HLG'' \<or> t = ''ST2084''"
  shows "\<exists>large_xyz rgb rgb_prime m singles.
           main_func lib (default_config lib \<lparr> OETF_TYPE := t \<rparr>) =
             \<lparr> run_large_xyz = Some large_xyz, run_illuminant = Some wp,
               run_rgb = Some rgb, run_rgb_prime = Some rgb_prime,
               run_effects =
                 Imshow (reverse_channels m)
                 # Imwrite (all_patch_file_str
                              (cs_name (COLOR_SPACE (default_config lib \<lparr> OETF_TYPE := t \<rparr>))) t)
                     (get_16bit_img (default_config lib \<lparr> OETF_TYPE := t \<rparr>)
                        (reverse_channels m))
                 # singles,
               run_error = None \<rparr> \<and>
           length large_xyz = length data \<and> length rgb = length data \<and>
           length rgb_prime = length data \<and>
           int (length rgb_prime) = h_num * v_num \<and> h_num * v_num = 6 * 4 \<and>
           length (mosaic_rects (default_config lib \<lparr> OETF_TYPE := t \<rparr>)) = 24 \<and>
           distinct (mosaic_rects (default_config lib \<lparr> OETF_TYPE := t \<rparr>)) \<and>
           (\<forall>idx y x. 0 \<le> idx \<and> idx < 24 \<and>
                in_mosaic_rect (default_config lib \<lparr> OETF_TYPE := t \<rparr>) idx y x
                \<longrightarrow> c_px m y x = rgb_prime ! nat idx) \<and>
           (\<forall>y x. (\<forall>idx. 0 \<le> idx \<and> idx < 24 \<longrightarrow>
                      \<not> in_mosaic_rect (default_config lib \<lparr> OETF_TYPE := t \<rparr>) idx y x)
                \<longrightarrow> c_px m y x = (0, 0, 0)) \<and>
           length singles = 24 \<and>
           (\<forall>i < 24. singles ! i =
              Imwrite
                (measure_file_str
                   (cs_name (COLOR_SPACE (default_config lib \<lparr> OETF_TYPE := t \<rparr>))) t
                   (int i + 1) (COLOR_CHECKER_EACH_NAME ! i))
                (get_16bit_img (default_config lib \<lparr> OETF_TYPE := t \<rparr>)
                   (reverse_channels
                      \<lparr> c_rows = 1080, c_cols = 1920,
                        c_px = (\<lambda>y x. if in_each_rect (default_config lib \<lparr> OETF_TYPE := t \<rparr>) y x
                                      then rgb_prime ! i else (0, 0, 0)) \<rparr>)))"
proof -
  let ?cfg = "default_config lib \<lparr> OETF_TYPE := t \<rparr>"
  have ref: "reference_layout ?cfg" by simp
  have ty: "OETF_TYPE ?cfg = t" by simp
  have chart: "COLOURCHECKERS lib (COLOR_CHECKER_NAME ?cfg) = Some (name, data, wp)"
    using assms(1) by (simp add: default_config_def)
  from OETF_FUNC_known [of ?cfg lib] assms(3) obtain f where f: "OETF_FUNC lib ?cfg = Some f"
    by auto
  define large_xyz where
    "large_xyz = map (xyY_to_XYZ lib) (map (\<lambda>(index, label, xyY). xyY) data)"
  define rgb where
    "rgb = get_linear_rgb_from_large_xyz lib ?cfg large_xyz wp (COLOR_SPACE ?cfg)"
  define rgb_prime where
    "rgb_prime = map f (map (scale_rgb (TARGET_BRIGHTNESS ?cfg)) rgb)"
  have len: "length large_xyz = length data" "length rgb = length data"
    "length rgb_prime = length data"
    by (simp_all add: large_xyz_def rgb_def rgb_prime_def)
  have l24: "24 \<le> length rgb_prime" using len assms(2) by simp
  have m: "main_func lib ?cfg =
             \<lparr> run_large_xyz = Some large_xyz, run_illuminant = Some wp,
               run_rgb = Some rgb, run_rgb_prime = Some rgb_prime,
               run_effects = fst (make_color_checker_image ?cfg rgb_prime),
               run_error = snd (make_color_checker_image ?cfg rgb_prime) \<rparr>"
    unfolding rgb_prime_def rgb_def large_xyz_def by (rule main_func_encoded [OF chart f])
  define singles where
    "singles = map (\<lambda>idx. Imwrite
                       (measure_file_str (cs_name (COLOR_SPACE ?cfg)) (OETF_TYPE ?cfg) (idx + 1)
                          (COLOR_CHECKER_EACH_NAME ! nat idx))
                       (get_16bit_img ?cfg (reverse_channels
                          \<lparr> c_rows = 1080, c_cols = 1920,
                            c_px = (\<lambda>y x. if in_each_rect ?cfg y x then rgb_prime ! nat idx
                                          else (0, 0, 0)) \<rparr>)))
                (py_range (h_num * v_num))"
  from make_color_checker_image_ref [OF ref l24] obtain mo where
    run: "make_color_checker_image ?cfg rgb_prime =
            (Imshow (reverse_channels mo)
             # Imwrite (all_patch_file_str (cs_name (COLOR_SPACE ?cfg)) (OETF_TYPE ?cfg))
                 (get_16bit_img ?cfg (reverse_channels mo))
             # singles, None)"
    and z: "\<forall>y x. (\<forall>i. 0 \<le> i \<and> i < 24 \<longrightarrow> \<not> in_mosaic_rect ?cfg i y x) \<longrightarrow> c_px mo y x = (0, 0, 0)"
    and p: "\<forall>j y x. 0 \<le> j \<and> j < 24 \<and> in_mosaic_rect ?cfg j y x \<longrightarrow> c_px mo y x = rgb_prime ! nat j"
    unfolding singles_def by blast
  have m': "main_func lib ?cfg =
             \<lparr> run_large_xyz = Some large_xyz, run_illuminant = Some wp,
               run_rgb = Some rgb, run_rgb_prime = Some rgb_prime,
               run_effects =
                 Imshow (reverse_channels mo)
                 # Imwrite (all_patch_file_str (cs_name (COLOR_SPACE ?cfg)) t)
                     (get_16bit_img ?cfg (reverse_channels mo))
                 # singles,
               run_error = None \<rparr>"
    unfolding m run ty by simp
  have grid: "int (length rgb_prime) = h_num * v_num" "h_num * v_num = 6 * 4"
    using len assms(2) by (simp_all add: h_num_def v_num_def)
  have sl: "length singles = 24"
    by (simp add: singles_def length_py_range_grid)
  have sn: "singles ! i =
              Imwrite
                (measure_file_str (cs_name (COLOR_SPACE ?cfg)) t (int i + 1)
                   (COLOR_CHECKER_EACH_NAME ! i))
                (get_16bit_img ?cfg
                   (reverse_channels
                      \<lparr> c_rows = 1080, c_cols = 1920,
                        c_px = (\<lambda>y x. if in_each_rect ?cfg y x
                                      then rgb_prime ! i else (0, 0, 0)) \<rparr>))"
    if "i < 24" for i
    using that unfolding singles_def ty
    by (simp add: length_py_range_grid py_range_grid_nth cong: if_cong)
  show ?thesis
    using m' len grid mosaic_rects_count [OF ref] p z sl sn by blast
qed

theorem reference_run_counts_witness:
  "COLOURCHECKERS demo_lib ''ColorChecker 2005'' =
     Some (''ColorChecker 2005'', demo_data, (3457 / 10000, 3585 / 10000)) \<and>
   length demo_data = 24 \<and>
   (''HLG'' = ''HLG'' \<or> ''HLG'' = ''ST2084'') \<and>
   run_error (main_func demo_lib (default_config demo_lib \<lparr> OETF_TYPE := ''HLG'' \<rparr>)) = None \<and>
   map_option length (run_rgb_prime (main_func demo_lib (default_config demo_lib \<lparr> OETF_TYPE := ''HLG'' \<rparr>)))
     = Some 24 \<and>
   length (run_effects (main_func demo_lib (default_config demo_lib \<lparr> OETF_TYPE := ''HLG'' \<rparr>))) = 26 \<and>
   (\<exists>img. run_effects (main_func demo_lib (default_config demo_lib \<lparr> OETF_TYPE := ''HLG'' \<rparr>)) ! 2 =
      Imwrite ''./output/ColorChecker_Measure_Patch_ITU-R BT.2020_HLG_01_dark skin.tiff'' img) \<and>
   (\<exists>img. run_effects (main_func demo_lib (default_config demo_lib \<lparr> OETF_TYPE := ''HLG'' \<rparr>)) ! 25 =
      Imwrite ''./output/ColorChecker_Measure_Patch_ITU-R BT.2020_HLG_24_black 2.tiff'' img)"
proof -
  let ?cfg = "default_config demo_lib \<lparr> OETF_TYPE := ''HLG'' \<rparr>"
  have c: "COLOURCHECKERS demo_lib ''ColorChecker 2005'' =
     Some (''ColorChecker 2005'', demo_data, (3457 / 10000, 3585 / 10000))"
    by (simp add: demo_lib_def demo_chart_def)
  have t: "''HLG'' = ''HLG'' \<or> ''HLG'' = ''ST2084''" by simp
  from reference_run_counts [OF c length_demo_data t]
  obtain large_xyz rgb rgb_prime m singles where
    r: "main_func demo_lib ?cfg =
             \<lparr> run_large_xyz = Some large_xyz,
               run_illuminant = Some (3457 / 10000, 3585 / 10000),
               run_rgb = Some rgb, run_rgb_prime = Some rgb_prime,
               run_effects =
                 Imshow (reverse_channels m)
                 # Imwrite (all_patch_file_str (cs_name (COLOR_SPACE ?cfg)) ''HLG'')
                     (get_16bit_img ?cfg (reverse_channels m))
                 # singles,
               run_error = None \<rparr>"
    and l: "length rgb_prime = length demo_data" "length singles = 24"
    and n: "\<forall>i < 24. singles ! i =
              Imwrite
                (measure_file_str (cs_name (COLOR_SPACE ?cfg)) ''HLG'' (int i + 1)
                   (COLOR_CHECKER_EACH_NAME ! i))
                (get_16bit_img ?cfg
                   (reverse_channels
                      \<lparr> c_rows = 1080, c_cols = 1920,
                        c_px = (\<lambda>y x. if in_each_rect ?cfg y x
                                      then rgb_prime ! i else (0, 0, 0)) \<rparr>))"
    by blast
  have "(0 :: nat) < 24" "(23 :: nat) < 24" by simp_all
  from n [rule_format, OF this(1)] n [rule_format, OF this(2)]
  have f: "\<exists>img. singles ! 0 =
      Imwrite ''./output/ColorChecker_Measure_Patch_ITU-R BT.2020_HLG_01_dark skin.tiff'' img"
    "\<exists>img. singles ! 23 =
      Imwrite ''./output/ColorChecker_Measure_Patch_ITU-R BT.2020_HLG_24_black 2.tiff'' img"
    by (simp_all only: demo_file_names) blast+
  show ?thesis
    using c t f by (simp add: r l length_demo_data)
qed


end
